theory Spec2Isabelle
  imports Complex_Main "HOL-Library.Sublist"
begin

section \<open>Python values\<close>

text \<open>
  A Python float is the real number it denotes or one of the three special values. The
  program only ever tests a float for truth (non-zero) or formats it.
\<close>

datatype pyfloat = Finite real | PosInf | NegInf | NaN

text \<open>
  What \<^verbatim>\<open>response.json()\<close> can return, and what the request bodies are built from.
  \<^verbatim>\<open>JNull\<close> is Python's \<^verbatim>\<open>None\<close>. A \<^verbatim>\<open>dict\<close> is an association list in
  insertion order.
\<close>

datatype json =
    JNull
  | JBool bool
  | JInt int
  | JFloat pyfloat
  | JString string
  | JArray "json list"
  | JObject "(string \<times> json) list"

text \<open>The exceptions that the program raises itself or lets escape.\<close>

datatype exn = AttributeError | ValueError

text \<open>Python truth value of an object, as tested by \<^verbatim>\<open>if x:\<close> and \<^verbatim>\<open>not x\<close>.\<close>

fun truthy :: "json \<Rightarrow> bool" where
  "truthy JNull = False"
| "truthy (JBool b) = b"
| "truthy (JInt n) = (n \<noteq> 0)"
| "truthy (JFloat f) = (f \<noteq> Finite 0)"
| "truthy (JString s) = (s \<noteq> [])"
| "truthy (JArray xs) = (xs \<noteq> [])"
| "truthy (JObject kvs) = (kvs \<noteq> [])"

text \<open>\<^verbatim>\<open>x.get(key, default)\<close>: only a dict has the method.\<close>

fun py_get :: "json \<Rightarrow> string \<Rightarrow> json \<Rightarrow> exn + json" where
  "py_get (JObject kvs) k d = Inr (case map_of kvs k of None \<Rightarrow> d | Some v \<Rightarrow> v)"
| "py_get _ k d = Inl AttributeError"

text \<open>\<^verbatim>\<open>d[key] = value\<close> on a dict: replaces in place, or appends a new key.\<close>

fun dict_set :: "(string \<times> json) list \<Rightarrow> string \<Rightarrow> json \<Rightarrow> (string \<times> json) list" where
  "dict_set [] k v = [(k, v)]"
| "dict_set ((k', v') # kvs) k v =
     (if k' = k then (k, v) # kvs else (k', v') # dict_set kvs k v)"

text \<open>\<^verbatim>\<open>str(n)\<close> for an integer: its decimal digits, with a minus sign when negative.\<close>

fun str_nat :: "nat \<Rightarrow> string" where
  "str_nat n =
     (if n < 10 then [''0123456789'' ! n]
      else str_nat (n div 10) @ [''0123456789'' ! (n mod 10)])"

declare str_nat.simps [simp del]

definition str_int :: "int \<Rightarrow> string" where
  "str_int n = (if n < 0 then CHR ''-'' # str_nat (nat (- n)) else str_nat (nat n))"

text \<open>\<^verbatim>\<open>sep.join(xs)\<close>.\<close>

fun join :: "string \<Rightarrow> string list \<Rightarrow> string" where
  "join sep [] = []"
| "join sep [x] = x"
| "join sep (x # y # ys) = x @ sep @ join sep (y # ys)"

text \<open>
  \<^verbatim>\<open>s.replace(old, '')\<close>: every non-overlapping occurrence of \<^verbatim>\<open>old\<close>, found from the
  left, is removed. With an empty \<^verbatim>\<open>old\<close> the string is unchanged.
\<close>

function replace_empty :: "string \<Rightarrow> string \<Rightarrow> string" where
  "replace_empty old [] = []"
| "replace_empty old (c # cs) =
     (if old \<noteq> [] \<and> prefix old (c # cs)
      then replace_empty old (drop (length old) (c # cs))
      else c # replace_empty old cs)"
  by pat_completeness auto
termination
  by (relation "measure (\<lambda>(old, s). length s)") auto

section \<open>The environment of the client\<close>

datatype http_method = GET | POST | PATCH

record request =
  req_method :: http_method
  req_url :: string
  req_headers :: "(string \<times> string) list"
  req_params :: "(string \<times> string) list"
  req_json :: "json option"

text \<open>
  A response of the \<^verbatim>\<open>requests\<close> library: \<^verbatim>\<open>resp_json\<close> is what \<^verbatim>\<open>response.json()\<close>
  does, \<^verbatim>\<open>Inl msg\<close> when it raises (the body is not valid JSON) with \<^verbatim>\<open>msg\<close> the text of
  the exception.
\<close>

record response =
  status_code :: int
  resp_text :: string
  resp_headers :: string
  resp_json :: "string + json"

text \<open>
  A call of \<^verbatim>\<open>requests.get/post/patch\<close> returns a response or raises (connection error,
  timeout, malformed request): \<^verbatim>\<open>Raised msg\<close>, with \<^verbatim>\<open>msg\<close> the \<^verbatim>\<open>str\<close> of the exception.
\<close>

datatype outcome = Response response | Raised string

text \<open>
  What the program takes from outside itself:
  \<^item> \<^verbatim>\<open>http\<close>: the network, which answers a request knowing all the requests sent before it;
  \<^item> \<^verbatim>\<open>json_dumps\<close>: \<^verbatim>\<open>json.dumps\<close> of the standard library;
  \<^item> \<^verbatim>\<open>py_repr\<close>: \<^verbatim>\<open>str()\<close> of a float, a list or a dict;
  \<^item> \<^verbatim>\<open>int_of_str\<close>: the built-in \<^verbatim>\<open>int()\<close> on a string, \<^verbatim>\<open>None\<close> when it raises
    \<^verbatim>\<open>ValueError\<close>;
  \<^item> \<^verbatim>\<open>set_iter\<close>: the order in which this process iterates over the set
    \<^verbatim>\<open>VALID_THEMATIC_BLOCKS\<close> (string hashing is randomised per process);
  \<^item> \<^verbatim>\<open>int_max_str_digits\<close>: \<^verbatim>\<open>sys.get_int_max_str_digits()\<close>, the most digits an
    integer may have when it is converted to a string, 4300 unless the process is
    configured otherwise; 0 means that there is no limit.
\<close>

record runtime =
  http :: "request list \<Rightarrow> request \<Rightarrow> outcome"
  json_dumps :: "json \<Rightarrow> string"
  py_repr :: "json \<Rightarrow> string"
  int_of_str :: "string \<Rightarrow> int option"
  set_iter :: "string list"
  int_max_str_digits :: nat

text \<open>
  \<^verbatim>\<open>str(n)\<close> for an integer argument of an operation: \<^verbatim>\<open>ValueError\<close> when the number has
  more digits than the limit, its decimal rendering otherwise.
\<close>

definition str_of_int :: "runtime \<Rightarrow> int \<Rightarrow> exn + string" where
  "str_of_int rt n =
     (if 0 < int_max_str_digits rt \<and> int_max_str_digits rt < length (str_nat (nat \<bar>n\<bar>))
      then Inl ValueError
      else Inr (str_int n))"

text \<open>
  \<^verbatim>\<open>str(x)\<close>, as an f-string formats a value that was decoded from JSON. The decoder
  itself refuses an integer with more digits than the limit, so formatting a decoded
  integer does not raise.
\<close>

fun py_str :: "runtime \<Rightarrow> json \<Rightarrow> string" where
  "py_str rt JNull = ''None''"
| "py_str rt (JBool b) = (if b then ''True'' else ''False'')"
| "py_str rt (JInt n) = str_int n"
| "py_str rt (JString s) = s"
| "py_str rt v = py_repr rt v"

section \<open>The API client\<close>

text \<open>\<^verbatim>\<open>if s:\<close> for an optional string argument: neither \<^verbatim>\<open>None\<close> nor empty.\<close>

fun given :: "string option \<Rightarrow> bool" where
  "given None = False"
| "given (Some s) = (s \<noteq> [])"

record SiteflowAPI =
  server_url :: string
  client_id :: string
  client_secret :: string
  project_id :: string
  family_id :: "string option"
  access_token :: json

text \<open>
  The state of the module: the global instance \<^verbatim>\<open>api\<close> and the requests sent so far, in
  order.
\<close>

record world =
  api :: SiteflowAPI
  sent :: "request list"

text \<open>
  \<^verbatim>\<open>SiteflowAPI.__init__\<close>, from the process environment (\<^verbatim>\<open>os.getenv\<close>); the error is
  the \<^verbatim>\<open>ValueError\<close> it raises.
\<close>

definition SiteflowAPI_init :: "(string \<Rightarrow> string option) \<Rightarrow> exn + SiteflowAPI" where
  "SiteflowAPI_init getenv =
     (let url = (case getenv ''SITEFLOW_SERVER_URL'' of
                   None \<Rightarrow> ''https://poc-ai.siteflow.co'' | Some u \<Rightarrow> u);
          cid = getenv ''SITEFLOW_CLIENT_ID'';
          secret = getenv ''SITEFLOW_CLIENT_SECRET'';
          pid = getenv ''SITEFLOW_PROJECT_ID'';
          fid = getenv ''SITEFLOW_FAMILY_ID''
      in if \<not> given cid \<or> \<not> given secret then Inl ValueError
         else if \<not> given pid then Inl ValueError
         else Inr \<lparr>server_url = url, client_id = the cid, client_secret = the secret,
                   project_id = the pid, family_id = fid, access_token = JNull\<rparr>)"

definition get_headers :: "runtime \<Rightarrow> SiteflowAPI \<Rightarrow> (string \<times> string) list" where
  "get_headers rt self =
     (let domain = replace_empty ''http://'' (replace_empty ''https://'' (server_url self));
          headers = [(''accept'', ''application/json''),
                     (''Content-Type'', ''application/json''),
                     (''User-Agent'', ''Mozilla/5.0''),
                     (''Host'', domain),
                     (''Origin'', server_url self),
                     (''Referer'', server_url self)]
      in if truthy (access_token self)
         then headers @ [(''Authorization'', ''Bearer '' @ py_str rt (access_token self))]
         else headers)"

text \<open>Sending a request: it is appended to the log and the network answers.\<close>

definition dispatch :: "runtime \<Rightarrow> world \<Rightarrow> request \<Rightarrow> outcome \<times> world" where
  "dispatch rt w req = (http rt (sent w) req, w\<lparr>sent := sent w @ [req]\<rparr>)"

definition authenticate_request :: "runtime \<Rightarrow> SiteflowAPI \<Rightarrow> request" where
  "authenticate_request rt self =
     \<lparr>req_method = POST,
      req_url = server_url self @ ''/ext/api/2.0/authenticate'',
      req_headers = get_headers rt self,
      req_params = [],
      req_json = Some (JObject [(''clientId'', JString (client_id self)),
                                (''clientSecret'', JString (client_secret self))])\<rparr>"

text \<open>
  \<^verbatim>\<open>SiteflowAPI.authenticate\<close>. Everything raised inside the \<^verbatim>\<open>try\<close> is caught and gives
  \<^verbatim>\<open>False\<close>: the request failing, \<^verbatim>\<open>response.json()\<close> failing, and \<^verbatim>\<open>.get\<close> on a JSON
  value that is not a dict. The assignment to \<^verbatim>\<open>self.access_token\<close> happens only when
  none of them raised.
\<close>

definition SiteflowAPI_authenticate :: "runtime \<Rightarrow> world \<Rightarrow> bool \<times> world" where
  "SiteflowAPI_authenticate rt w =
     (case dispatch rt w (authenticate_request rt (api w)) of
        (Raised e, w') \<Rightarrow> (False, w')
      | (Response r, w') \<Rightarrow>
          if status_code r = 200 then
            (case resp_json r of
               Inl e \<Rightarrow> (False, w')
             | Inr j \<Rightarrow>
                 (case py_get j ''accessToken'' JNull of
                    Inl e \<Rightarrow> (False, w')
                  | Inr t \<Rightarrow> (True, w'\<lparr>api := (api w')\<lparr>access_token := t\<rparr>\<rparr>)))
          else (False, w'))"

text \<open>
  The guard that opens every resource operation,
  \<^verbatim>\<open>not self.access_token and not self.authenticate()\<close>: its value, and the state after
  evaluating it. \<^verbatim>\<open>authenticate\<close> is called only when the token is not truthy.
\<close>

definition no_token_and_not_authenticate :: "runtime \<Rightarrow> world \<Rightarrow> bool \<times> world" where
  "no_token_and_not_authenticate rt w =
     (if truthy (access_token (api w)) then (False, w)
      else (case SiteflowAPI_authenticate rt w of (ok, w') \<Rightarrow> (\<not> ok, w')))"

text \<open>
  \<^verbatim>\<open>response.raise_for_status()\<close> of the \<^verbatim>\<open>requests\<close> library raises \<^verbatim>\<open>HTTPError\<close> for a
  client error (400 to 499) or a server error (500 to 599), and for no other status.
\<close>

definition raise_for_status :: "response \<Rightarrow> bool" where
  "raise_for_status r = (400 \<le> status_code r \<and> status_code r < 600)"

text \<open>The body of the \<^verbatim>\<open>try\<close> of both listing operations, once the call has returned.\<close>

definition data_or_empty :: "outcome \<Rightarrow> json" where
  "data_or_empty out =
     (case out of
        Raised e \<Rightarrow> JArray []
      | Response r \<Rightarrow>
          if raise_for_status r then JArray []
          else (case resp_json r of
                  Inl e \<Rightarrow> JArray []
                | Inr j \<Rightarrow> (case py_get j ''data'' (JArray []) of
                             Inl e \<Rightarrow> JArray []
                           | Inr d \<Rightarrow> d)))"

definition get_flows_request :: "runtime \<Rightarrow> SiteflowAPI \<Rightarrow> request" where
  "get_flows_request rt self =
     \<lparr>req_method = GET,
      req_url = server_url self @ ''/ext/api/2.0/flows'',
      req_headers = get_headers rt self,
      req_params = [(''projectId'', project_id self)],
      req_json = None\<rparr>"

definition SiteflowAPI_get_flows :: "runtime \<Rightarrow> world \<Rightarrow> json \<times> world" where
  "SiteflowAPI_get_flows rt w =
     (case no_token_and_not_authenticate rt w of
        (True, w1) \<Rightarrow> (JArray [], w1)
      | (False, w1) \<Rightarrow>
          (case dispatch rt w1 (get_flows_request rt (api w1)) of
             (out, w2) \<Rightarrow> (data_or_empty out, w2)))"

definition get_flow_phases_request :: "runtime \<Rightarrow> SiteflowAPI \<Rightarrow> string \<Rightarrow> request" where
  "get_flow_phases_request rt self flow_id =
     \<lparr>req_method = GET,
      req_url = server_url self @ ''/ext/api/2.0/flows/'' @ flow_id @ ''/phases'',
      req_headers = get_headers rt self,
      req_params = [],
      req_json = None\<rparr>"

definition SiteflowAPI_get_flow_phases :: "runtime \<Rightarrow> world \<Rightarrow> string \<Rightarrow> json \<times> world" where
  "SiteflowAPI_get_flow_phases rt w flow_id =
     (case no_token_and_not_authenticate rt w of
        (True, w1) \<Rightarrow> (JArray [], w1)
      | (False, w1) \<Rightarrow>
          (case dispatch rt w1 (get_flow_phases_request rt (api w1) flow_id) of
             (out, w2) \<Rightarrow> (data_or_empty out, w2)))"

section \<open>The mutating operations\<close>

text \<open>
  The dict an operation returns: \<^verbatim>\<open>success\<close> is always there, every other key only in
  some of the outcomes (\<^verbatim>\<open>None\<close>: the key is absent).
\<close>

record result =
  success :: bool
  data :: "json option"
  error :: "string option"
  details :: "string option"
  request_payload :: "string option"
  request_url :: "string option"

definition failed :: "string \<Rightarrow> result" where
  "failed msg = \<lparr>success = False, data = None, error = Some msg, details = None,
                 request_payload = None, request_url = None\<rparr>"

definition succeeded :: "json \<Rightarrow> result" where
  "succeeded j = \<lparr>success = True, data = Some j, error = None, details = None,
                  request_payload = None, request_url = None\<rparr>"

text \<open>
  The \<^verbatim>\<open>else\<close> branch that the four operations share: the status is not a success
  status. The details are the JSON body serialised again when the body is JSON, the raw
  text otherwise. The status of a response is a number of three digits, so formatting it
  does not raise.
\<close>

definition api_error :: "runtime \<Rightarrow> response \<Rightarrow> json \<Rightarrow> string \<Rightarrow> result" where
  "api_error rt r payload url =
     (let error_details = (case resp_json r of
                             Inl e \<Rightarrow> resp_text r
                           | Inr error_json \<Rightarrow> json_dumps rt error_json)
      in \<lparr>success = False, data = None,
          error = Some (''API error: '' @ str_int (status_code r)),
          details = Some error_details,
          request_payload = Some (json_dumps rt payload),
          request_url = Some url\<rparr>)"

text \<open>
  The \<^verbatim>\<open>print\<close> calls of the operations only write the request and the response to
  standard output; they are left out.
\<close>

text \<open>
  The \<^verbatim>\<open>try\<close> block that \<^verbatim>\<open>add_phase_to_flow\<close>, \<^verbatim>\<open>add_step_to_phase\<close> and
  \<^verbatim>\<open>create_flow\<close> repeat word for word: post the payload; on 200 or 201 return the decoded
  body; on another status the API error; and on any exception (the call itself, or
  \<^verbatim>\<open>response.json()\<close> on a success status) only \<^verbatim>\<open>str(e)\<close>.
\<close>

definition post_data :: "runtime \<Rightarrow> world \<Rightarrow> string \<Rightarrow> json \<Rightarrow> result \<times> world" where
  "post_data rt w url payload =
     (case dispatch rt w \<lparr>req_method = POST, req_url = url,
                           req_headers = get_headers rt (api w), req_params = [],
                           req_json = Some payload\<rparr> of
        (Raised e, w') \<Rightarrow> (failed e, w')
      | (Response r, w') \<Rightarrow>
          if status_code r \<in> {200, 201} then
            (case resp_json r of
               Inl e \<Rightarrow> (failed e, w')
             | Inr j \<Rightarrow> (succeeded j, w'))
          else (api_error rt r payload url, w'))"

text \<open>
  The \<^verbatim>\<open>usageProperties\<close> step of \<^verbatim>\<open>add_phase_to_flow\<close>: the key is set when one of
  the two flags is true, to a dict that holds the true flags.
\<close>

definition with_usage_properties :: "(string \<times> json) list \<Rightarrow> bool \<Rightarrow> bool
    \<Rightarrow> (string \<times> json) list" where
  "with_usage_properties d auto_advance can_be_skipped =
     (if auto_advance \<or> can_be_skipped then
        (let u0 = [];
             u1 = (if auto_advance then dict_set u0 ''autoAdvance'' (JBool auto_advance)
                   else u0);
             u2 = (if can_be_skipped then dict_set u1 ''canBeSkipped'' (JBool can_be_skipped)
                   else u1)
         in dict_set d ''usageProperties'' (JObject u2))
      else d)"

text \<open>
  The \<^verbatim>\<open>phase_data\<close> dict that \<^verbatim>\<open>add_phase_to_flow\<close> builds from its arguments. The
  source builds it before its \<^verbatim>\<open>try\<close>, so the \<^verbatim>\<open>ValueError\<close> of
  \<^verbatim>\<open>str(ordering_number)\<close> is not caught.
\<close>

definition phase_data :: "runtime \<Rightarrow> string \<Rightarrow> string option \<Rightarrow> int option \<Rightarrow> bool \<Rightarrow> bool
    \<Rightarrow> exn + (string \<times> json) list" where
  "phase_data rt phase_name phase_description ordering_number auto_advance can_be_skipped =
     (let d0 = [(''name'', JString phase_name),
                (''managementProperties'', JObject [(''isEnabled'', JBool True)])];
          d1 = (if given phase_description
                then dict_set d0 ''internalInformation'' (JString (the phase_description))
                else d0)
      in case ordering_number of
           None \<Rightarrow> Inr (with_usage_properties d1 auto_advance can_be_skipped)
         | Some n \<Rightarrow>
             (case str_of_int rt n of
                Inl e \<Rightarrow> Inl e
              | Inr s \<Rightarrow>
                  Inr (with_usage_properties
                         (dict_set d1 ''customOrderingNumber'' (JString s))
                         auto_advance can_be_skipped)))"

text \<open>
  \<^verbatim>\<open>SiteflowAPI.add_phase_to_flow\<close>: a result, or the exception that leaves the method.
\<close>

definition SiteflowAPI_add_phase_to_flow ::
    "runtime \<Rightarrow> world \<Rightarrow> string \<Rightarrow> string \<Rightarrow> string option \<Rightarrow> int option \<Rightarrow> bool \<Rightarrow> bool
     \<Rightarrow> (exn + result) \<times> world" where
  "SiteflowAPI_add_phase_to_flow rt w flow_id phase_name phase_description ordering_number
       auto_advance can_be_skipped =
     (case no_token_and_not_authenticate rt w of
        (True, w1) \<Rightarrow> (Inr (failed ''Authentication failed''), w1)
      | (False, w1) \<Rightarrow>
          (let url = server_url (api w1) @ ''/ext/api/2.0/flows/'' @ flow_id @ ''/add-phases''
           in case phase_data rt phase_name phase_description ordering_number
                     auto_advance can_be_skipped of
                Inl e \<Rightarrow> (Inl e, w1)
              | Inr d \<Rightarrow>
                  (case post_data rt w1 url (JObject [(''data'', JArray [JObject d])]) of
                     (r, w2) \<Rightarrow> (Inr r, w2))))"

definition VALID_THEMATIC_BLOCKS :: "string set" where
  "VALID_THEMATIC_BLOCKS = {''INSTRUCTION'', ''CHECKLIST'', ''FORM'', ''SIGNATURE''}"

text \<open>\<^verbatim>\<open>if xs:\<close> for an optional list argument.\<close>

fun given_list :: "'a list option \<Rightarrow> bool" where
  "given_list None = False"
| "given_list (Some xs) = (xs \<noteq> [])"

text \<open>
  The \<^verbatim>\<open>step_data\<close> dict that \<^verbatim>\<open>add_step_to_phase\<close> builds from its arguments, also
  before the \<^verbatim>\<open>try\<close>.
\<close>

definition step_data :: "runtime \<Rightarrow> string \<Rightarrow> string option \<Rightarrow> int option
    \<Rightarrow> string list option \<Rightarrow> exn + (string \<times> json) list" where
  "step_data rt step_name step_description ordering_number enabled_thematic_blocks =
     (let m = (if given_list enabled_thematic_blocks
               then dict_set [] ''listEnabledThematicBlocks''
                      (JArray (map JString (the enabled_thematic_blocks)))
               else dict_set [] ''listEnabledThematicBlocks'' (JArray [JString ''INSTRUCTION'']));
          d0 = [(''name'', JString step_name), (''managementProperties'', JObject m)];
          d1 = (if given step_description
                then dict_set d0 ''internalInformation'' (JString (the step_description))
                else d0)
      in case ordering_number of
           None \<Rightarrow> Inr d1
         | Some n \<Rightarrow>
             (case str_of_int rt n of
                Inl e \<Rightarrow> Inl e
              | Inr s \<Rightarrow> Inr (dict_set d1 ''customOrderingNumber'' (JString s))))"

text \<open>
  The list \<^verbatim>\<open>invalid_blocks\<close> of \<^verbatim>\<open>add_step_to_phase\<close>; it is computed only when the
  argument is a non-empty list.
\<close>

definition invalid_blocks :: "string list option \<Rightarrow> string list" where
  "invalid_blocks enabled_thematic_blocks =
     (if given_list enabled_thematic_blocks
      then filter (\<lambda>block. block \<notin> VALID_THEMATIC_BLOCKS) (the enabled_thematic_blocks)
      else [])"

text \<open>What the validation branch of \<^verbatim>\<open>add_step_to_phase\<close> returns.\<close>

definition invalid_blocks_result :: "runtime \<Rightarrow> string list \<Rightarrow> result" where
  "invalid_blocks_result rt blocks =
     \<lparr>success = False, data = None,
      error = Some ''Invalid thematic block types'',
      details = Some (''Invalid block types: '' @ join '', '' blocks
                      @ ''. Valid types are: '' @ join '', '' (set_iter rt)),
      request_payload = None, request_url = None\<rparr>"

text \<open>
  \<^verbatim>\<open>SiteflowAPI.add_step_to_phase\<close>: a result, or the exception that leaves the method.
\<close>

definition SiteflowAPI_add_step_to_phase ::
    "runtime \<Rightarrow> world \<Rightarrow> string \<Rightarrow> string \<Rightarrow> string option \<Rightarrow> int option \<Rightarrow> string list option
     \<Rightarrow> (exn + result) \<times> world" where
  "SiteflowAPI_add_step_to_phase rt w phase_id step_name step_description ordering_number
       enabled_thematic_blocks =
     (case no_token_and_not_authenticate rt w of
        (True, w1) \<Rightarrow> (Inr (failed ''Authentication failed''), w1)
      | (False, w1) \<Rightarrow>
          (let url = server_url (api w1) @ ''/ext/api/2.0/phases/'' @ phase_id @ ''/add-steps''
           in if given_list enabled_thematic_blocks \<and> invalid_blocks enabled_thematic_blocks \<noteq> []
              then (Inr (invalid_blocks_result rt (invalid_blocks enabled_thematic_blocks)), w1)
              else
                (case step_data rt step_name step_description ordering_number
                        enabled_thematic_blocks of
                   Inl e \<Rightarrow> (Inl e, w1)
                 | Inr d \<Rightarrow>
                     (case post_data rt w1 url (JObject [(''data'', JArray [JObject d])]) of
                        (r, w2) \<Rightarrow> (Inr r, w2)))))"

text \<open>
  The \<^verbatim>\<open>flow_properties\<close> dict of \<^verbatim>\<open>create_flow\<close>; \<^verbatim>\<open>family\<close> is the family identifier
  after the fallback to the configured one.
\<close>

definition flow_properties :: "string \<Rightarrow> string \<Rightarrow> string option \<Rightarrow> string option
    \<Rightarrow> string option \<Rightarrow> string option \<Rightarrow> string option \<Rightarrow> (string \<times> json) list" where
  "flow_properties flow_name flow_type description category_id family family_custom_code
       reference =
     (let p0 = [(''name'', JString flow_name), (''type'', JString flow_type)];
          p1 = (if given description
                then dict_set p0 ''description'' (JString (the description)) else p0);
          p2 = (if given category_id
                then dict_set p1 ''categoryIdentifier'' (JString (the category_id)) else p1);
          p3 = (if given family
                then dict_set p2 ''familyIdentifier'' (JString (the family)) else p2);
          p4 = (if given family_custom_code
                then dict_set p3 ''familyCustomCode'' (JString (the family_custom_code)) else p3)
      in if given reference
         then dict_set p4 ''reference'' (JString (the reference)) else p4)"

text \<open>
  \<^verbatim>\<open>SiteflowAPI.create_flow\<close>. The argument \<^verbatim>\<open>flow_type\<close> is \<^verbatim>\<open>None\<close> when the caller
  leaves it out, and the default \<^verbatim>\<open>"GENERIC"\<close> takes its place.
\<close>

definition SiteflowAPI_create_flow ::
    "runtime \<Rightarrow> world \<Rightarrow> string \<Rightarrow> string \<Rightarrow> string option \<Rightarrow> string option \<Rightarrow> string option
     \<Rightarrow> string option \<Rightarrow> string option \<Rightarrow> string option \<Rightarrow> result \<times> world" where
  "SiteflowAPI_create_flow rt w flow_name project_id' flow_type_arg description category_id
       family_id_arg family_custom_code reference =
     (let flow_type = (case flow_type_arg of None \<Rightarrow> ''GENERIC'' | Some t \<Rightarrow> t)
      in case no_token_and_not_authenticate rt w of
        (True, w1) \<Rightarrow> (failed ''Authentication failed'', w1)
      | (False, w1) \<Rightarrow>
          (let url = server_url (api w1) @ ''/ext/api/2.0/flows/bulk-create'';
               family = (if family_id_arg = None \<and> given (family_id (api w1))
                         then family_id (api w1) else family_id_arg);
               flow_data = [(''flowProperties'', JObject
                               (flow_properties flow_name flow_type description category_id
                                  family family_custom_code reference)),
                            (''projectIdentifier'', JString project_id')];
               payload = JObject [(''data'', JArray [JObject flow_data])]
           in post_data rt w1 url payload))"

text \<open>
  The \<^verbatim>\<open>try\<close> block of \<^verbatim>\<open>update_step_text\<close>: 204 is a success status too, and a
  success whose body does not decode (204 has none) gives an empty dict.
\<close>

definition patch_data :: "runtime \<Rightarrow> world \<Rightarrow> string \<Rightarrow> json \<Rightarrow> result \<times> world" where
  "patch_data rt w url payload =
     (case dispatch rt w \<lparr>req_method = PATCH, req_url = url,
                           req_headers = get_headers rt (api w), req_params = [],
                           req_json = Some payload\<rparr> of
        (Raised e, w') \<Rightarrow> (failed e, w')
      | (Response r, w') \<Rightarrow>
          if status_code r \<in> {200, 201, 204} then
            (case resp_json r of
               Inl e \<Rightarrow> (succeeded (JObject []), w')
             | Inr response_data \<Rightarrow> (succeeded response_data, w'))
          else (api_error rt r payload url, w'))"

definition SiteflowAPI_update_step_text ::
    "runtime \<Rightarrow> world \<Rightarrow> string \<Rightarrow> string \<Rightarrow> result \<times> world" where
  "SiteflowAPI_update_step_text rt w step_id text_content =
     (case no_token_and_not_authenticate rt w of
        (True, w1) \<Rightarrow> (failed ''Authentication failed'', w1)
      | (False, w1) \<Rightarrow>
          (let url = server_url (api w1) @ ''/ext/api/2.0/steps/'' @ step_id
                       @ ''/update-text-block'';
               payload = JObject [(''data'', JString text_content)]
           in patch_data rt w1 url payload))"

section \<open>The tools\<close>

text \<open>
  A tool argument declared \<^verbatim>\<open>int\<close> that the tool also accepts as a string
  (\<^verbatim>\<open>isinstance(ordering_number, str)\<close>).
\<close>

datatype int_or_str = AnInt int | AStr string

text \<open>
  The conversion of \<^verbatim>\<open>ordering_number\<close> that opens the tools: the integer to pass on, or
  the error text the tool returns at once.
\<close>

fun convert_ordering_number :: "runtime \<Rightarrow> int_or_str option \<Rightarrow> string + int option" where
  "convert_ordering_number rt None = Inr None"
| "convert_ordering_number rt (Some (AnInt n)) = Inr (Some n)"
| "convert_ordering_number rt (Some (AStr s)) =
     (case int_of_str rt s of
        Some n \<Rightarrow> Inr (Some n)
      | None \<Rightarrow> Inl (''Error: ordering_number must be an integer, got '' @ [CHR 0x27] @ s
                     @ [CHR 0x27]))"

text \<open>\<^verbatim>\<open>s.split(',')\<close>: the pieces between the separators, empty ones included.\<close>

fun split :: "char \<Rightarrow> string \<Rightarrow> string list" where
  "split sep [] = [[]]"
| "split sep (c # cs) =
     (if c = sep then [] # split sep cs
      else (case split sep cs of [] \<Rightarrow> [[c]] | p # ps \<Rightarrow> (c # p) # ps))"

text \<open>
  \<^verbatim>\<open>s.strip()\<close> and \<^verbatim>\<open>s.upper()\<close> on ASCII: the whitespace characters are tab, line feed,
  vertical tab, form feed, carriage return, the four separators 0x1C to 0x1F and space;
  the letters a to z go to A to Z.
\<close>

definition isspace :: "char \<Rightarrow> bool" where
  "isspace c = (c \<in> {CHR 0x09, CHR 0x0A, CHR 0x0B, CHR 0x0C, CHR 0x0D,
                     CHR 0x1C, CHR 0x1D, CHR 0x1E, CHR 0x1F, CHR 0x20})"

definition strip :: "string \<Rightarrow> string" where
  "strip s = rev (dropWhile isspace (rev (dropWhile isspace s)))"

definition upper_char :: "char \<Rightarrow> char" where
  "upper_char c =
     (let n = (of_char c :: nat) in if 97 \<le> n \<and> n \<le> 122 then char_of (n - 32) else c)"

definition upper :: "string \<Rightarrow> string" where
  "upper s = map upper_char s"

text \<open>
  The text a tool returns for a failed result: the error, the details and, when the result
  has them, the request payload and URL.
\<close>

definition failure_text :: "string \<Rightarrow> result \<Rightarrow> string" where
  "failure_text what r =
     (let error' = (case error r of None \<Rightarrow> ''Unknown error'' | Some e \<Rightarrow> e);
          details' = (case details r of None \<Rightarrow> ''No details available'' | Some d \<Rightarrow> d);
          debug_info = [];
          debug_info = (case request_payload r of
                          Some p \<Rightarrow> debug_info @ [CHR 0x0A] @ ''Request payload: '' @ p
                        | None \<Rightarrow> debug_info);
          debug_info = (case request_url r of
                          Some u \<Rightarrow> debug_info @ [CHR 0x0A] @ ''Request URL: '' @ u
                        | None \<Rightarrow> debug_info)
      in what @ error' @ [CHR 0x0A] @ ''Details: '' @ details' @ debug_info)"

text \<open>
  The tool \<^verbatim>\<open>add_step_to_phase\<close>. The list parsed from \<^verbatim>\<open>enabled_thematic_blocks\<close> is
  bound to \<^verbatim>\<open>thematic_blocks_list\<close> and never read. Nothing catches an exception of the
  API call, nor the \<^verbatim>\<open>AttributeError\<close> that \<^verbatim>\<open>step_data.get\<close> raises when the data of a
  successful result is not a dict.
\<close>

definition add_step_to_phase ::
    "runtime \<Rightarrow> world \<Rightarrow> string \<Rightarrow> string \<Rightarrow> string option \<Rightarrow> int_or_str option
     \<Rightarrow> string option \<Rightarrow> (exn + string) \<times> world" where
  "add_step_to_phase rt w phase_id step_name step_description ordering_number
       enabled_thematic_blocks =
     (case convert_ordering_number rt ordering_number of
        Inl msg \<Rightarrow> (Inr msg, w)
      | Inr ordering_number' \<Rightarrow>
          (let thematic_blocks_list =
                 (if given enabled_thematic_blocks
                  then Some (map (\<lambda>block. upper (strip block))
                               (split CHR '','' (the enabled_thematic_blocks)))
                  else None)
           in case SiteflowAPI_add_step_to_phase rt w phase_id step_name step_description
                     ordering_number' (Some [''INSTRUCTION'']) of
                (Inl e, w') \<Rightarrow> (Inl e, w')
              | (Inr r, w') \<Rightarrow>
                  if success r then
                    (let step_data' = (case data r of None \<Rightarrow> JObject [] | Some d \<Rightarrow> d)
                     in case py_get step_data' ''identifier'' (JString ''Unknown'') of
                          Inl e \<Rightarrow> (Inl e, w')
                        | Inr step_id \<Rightarrow>
                            (let blocks_str = ''INSTRUCTION''
                             in (Inr (''Successfully added step '' @ [CHR 0x27] @ step_name
                                      @ [CHR 0x27] @ '' to phase '' @ phase_id @ ''.''
                                      @ [CHR 0x0A] @ ''Step ID: '' @ py_str rt step_id
                                      @ [CHR 0x0A] @ ''Enabled thematic blocks: ''
                                      @ blocks_str), w')))
                  else (Inr (failure_text ''Failed to add step to phase: '' r), w')))"

text \<open>
  The flow identifier the tool \<^verbatim>\<open>create_flow\<close> reads from the data of a successful
  result; an exception while reading it is caught and leaves \<^verbatim>\<open>"Unknown"\<close>.
\<close>

definition flow_id_of :: "json \<Rightarrow> json" where
  "flow_id_of flow_data =
     (case flow_data of
        JArray (x # xs) \<Rightarrow>
          (case py_get x ''identifier'' (JString ''Unknown'') of
             Inl e \<Rightarrow> JString ''Unknown'' | Inr v \<Rightarrow> v)
      | JObject kvs \<Rightarrow>
          (case py_get (JObject kvs) ''identifier'' (JString ''Unknown'') of
             Inl e \<Rightarrow> JString ''Unknown'' | Inr v \<Rightarrow> v)
      | _ \<Rightarrow> JString ''Unknown'')"

text \<open>
  The tool \<^verbatim>\<open>create_flow\<close>. An argument \<^verbatim>\<open>flow_type\<close> that is left out is \<^verbatim>\<open>None\<close> here
  and the default \<^verbatim>\<open>"GENERIC"\<close> takes its place. The test
  \<^verbatim>\<open>flow_type and flow_type not in [...]\<close> lets the empty string through.
\<close>

definition create_flow ::
    "runtime \<Rightarrow> world \<Rightarrow> string \<Rightarrow> string \<Rightarrow> string option \<Rightarrow> string option \<Rightarrow> string option
     \<Rightarrow> string option \<Rightarrow> string option \<Rightarrow> string option \<Rightarrow> string \<times> world" where
  "create_flow rt w flow_name project_id' flow_type_arg description category_id
       family_id_arg family_custom_code reference =
     (let flow_type = (case flow_type_arg of None \<Rightarrow> ''GENERIC'' | Some t \<Rightarrow> t)
      in if flow_type \<noteq> [] \<and> flow_type \<notin> set [''CORE'', ''HEAD'', ''GENERIC'', ''FORM'']
         then (''Error: flow_type must be one of CORE, HEAD, GENERIC, FORM, got ''
               @ [CHR 0x27] @ flow_type @ [CHR 0x27], w)
         else
           (case SiteflowAPI_create_flow rt w flow_name project_id' (Some flow_type)
                   description category_id family_id_arg family_custom_code reference of
              (r, w') \<Rightarrow>
                if success r then
                  (let flow_data = (case data r of None \<Rightarrow> JObject [] | Some d \<Rightarrow> d);
                       flow_id = flow_id_of flow_data
                   in (''Successfully created flow '' @ [CHR 0x27] @ flow_name @ [CHR 0x27]
                       @ ''.'' @ [CHR 0x0A] @ ''Flow ID: '' @ py_str rt flow_id
                       @ [CHR 0x0A] @ ''Flow Type: '' @ flow_type
                       @ [CHR 0x0A] @ ''Project ID: '' @ project_id', w'))
                else (failure_text ''Failed to create flow: '' r, w')))"

section \<open>Outcomes that the specification names\<close>

text \<open>
  For the listing operations: the call raised, or the status is a client or server error,
  or the body is a JSON object whose \<^verbatim>\<open>data\<close> is the empty list.
\<close>

definition upstream_failed_or_empty :: "outcome \<Rightarrow> bool" where
  "upstream_failed_or_empty out =
     (case out of
        Raised e \<Rightarrow> True
      | Response r \<Rightarrow>
          (400 \<le> status_code r \<and> status_code r < 600)
          \<or> (case resp_json r of
                Inr (JObject kvs) \<Rightarrow> map_of kvs ''data'' = Some (JArray [])
              | _ \<Rightarrow> False))"

text \<open>
  The integer that a decimal numeral denotes: an optional minus sign, then digits read
  from the left.
\<close>

definition nat_of_digits :: "string \<Rightarrow> nat" where
  "nat_of_digits s = foldl (\<lambda>a c. 10 * a + (of_char c - 48)) 0 s"

definition decimal_value :: "string \<Rightarrow> int" where
  "decimal_value s =
     (case s of
        [] \<Rightarrow> 0
      | c # cs \<Rightarrow> if c = CHR ''-'' then - int (nat_of_digits cs) else int (nat_of_digits s))"


text \<open>
  The ordering number can be converted to a string: there is none, or the limit is off, or
  the number has no more digits than the limit.
\<close>

definition within_str_digits :: "runtime \<Rightarrow> int option \<Rightarrow> bool" where
  "within_str_digits rt k =
     (case k of
        None \<Rightarrow> True
      | Some n \<Rightarrow> int_max_str_digits rt = 0
                 \<or> length (str_nat (nat \<bar>n\<bar>)) \<le> int_max_str_digits rt)"

section \<open>Example inputs\<close>

text \<open>
  A configured client without a token, a runtime around a given network, and a response
  with a given status, text and decoded body. The library functions of the example runtime
  are placeholders.
\<close>

definition example_api :: SiteflowAPI where
  "example_api = \<lparr>server_url = ''https://poc-ai.siteflow.co'', client_id = ''id'',
                   client_secret = ''secret'', project_id = ''p1'', family_id = None,
                   access_token = JNull\<rparr>"

definition example_runtime :: "(request list \<Rightarrow> request \<Rightarrow> outcome) \<Rightarrow> runtime" where
  "example_runtime net =
     \<lparr>http = net, json_dumps = (\<lambda>j. ''<json>''), py_repr = (\<lambda>j. ''<repr>''),
      int_of_str = (\<lambda>s. None),
      set_iter = [''INSTRUCTION'', ''CHECKLIST'', ''FORM'', ''SIGNATURE''],
      int_max_str_digits = 4300\<rparr>"

definition reply :: "int \<Rightarrow> string \<Rightarrow> string + json \<Rightarrow> outcome" where
  "reply status body j =
     Response \<lparr>status_code = status, resp_text = body, resp_headers = [], resp_json = j\<rparr>"

text \<open>An integer of 4301 digits, one more than the default limit.\<close>

definition beyond_limit :: int where
  "beyond_limit = 10 ^ 4300"

lemmas example_defs = example_api_def example_runtime_def reply_def

text \<open>The example client is the one the constructor builds from a minimal environment.\<close>

lemma example_api_init:
  "SiteflowAPI_init [''SITEFLOW_CLIENT_ID'' \<mapsto> ''id'', ''SITEFLOW_CLIENT_SECRET'' \<mapsto> ''secret'',
                     ''SITEFLOW_PROJECT_ID'' \<mapsto> ''p1''] = Inr example_api"
  by (simp add: SiteflowAPI_init_def example_api_def)

section \<open>The token and the state\<close>

lemma authenticate_sent:
  "sent (snd (SiteflowAPI_authenticate rt w)) = sent w @ [authenticate_request rt (api w)]"
  by (simp add: SiteflowAPI_authenticate_def dispatch_def split: outcome.splits sum.splits)

lemma authenticate_True:
  assumes "SiteflowAPI_authenticate rt w = (True, w')"
  shows "\<exists>r kvs. http rt (sent w) (authenticate_request rt (api w)) = Response r
           \<and> status_code r = 200 \<and> resp_json r = Inr (JObject kvs)
           \<and> api w' = (api w)\<lparr>access_token :=
                 (case map_of kvs ''accessToken'' of None \<Rightarrow> JNull | Some t \<Rightarrow> t)\<rparr>"
proof -
  obtain r where r: "http rt (sent w) (authenticate_request rt (api w)) = Response r"
    using assms
    by (cases "http rt (sent w) (authenticate_request rt (api w))")
       (auto simp: SiteflowAPI_authenticate_def dispatch_def)
  with assms have st: "status_code r = 200"
    by (auto simp: SiteflowAPI_authenticate_def dispatch_def split: if_splits)
  with assms r obtain j where j: "resp_json r = Inr j"
    by (cases "resp_json r") (auto simp: SiteflowAPI_authenticate_def dispatch_def)
  with assms r st obtain kvs where k: "j = JObject kvs"
    by (cases j) (auto simp: SiteflowAPI_authenticate_def dispatch_def)
  with assms r st j have "api w' = (api w)\<lparr>access_token :=
        (case map_of kvs ''accessToken'' of None \<Rightarrow> JNull | Some t \<Rightarrow> t)\<rparr>"
    by (auto simp: SiteflowAPI_authenticate_def dispatch_def)
  with r st j k show ?thesis by blast
qed

lemma authenticate_False:
  assumes "SiteflowAPI_authenticate rt w = (False, w')"
  shows "api w' = api w"
  using assms
  by (auto simp: SiteflowAPI_authenticate_def dispatch_def
      split: outcome.splits sum.splits if_splits)

lemma guard_world:
  "snd (no_token_and_not_authenticate rt w) =
     (if truthy (access_token (api w)) then w else snd (SiteflowAPI_authenticate rt w))"
  by (simp add: no_token_and_not_authenticate_def split: prod.splits)

lemma guard_value:
  "fst (no_token_and_not_authenticate rt w) =
     (\<not> truthy (access_token (api w)) \<and> \<not> fst (SiteflowAPI_authenticate rt w))"
  by (simp add: no_token_and_not_authenticate_def split: prod.splits)

lemma post_data_api: "api (snd (post_data rt w url payload)) = api w"
  by (simp add: post_data_def dispatch_def split: outcome.splits sum.splits)

lemma patch_data_api: "api (snd (patch_data rt w url payload)) = api w"
  by (simp add: patch_data_def dispatch_def split: outcome.splits sum.splits)

lemma get_flows_api:
  "api (snd (SiteflowAPI_get_flows rt w)) = api (snd (no_token_and_not_authenticate rt w))"
  by (simp add: SiteflowAPI_get_flows_def dispatch_def split: prod.splits bool.splits)

lemma get_flow_phases_api:
  "api (snd (SiteflowAPI_get_flow_phases rt w f))
     = api (snd (no_token_and_not_authenticate rt w))"
  by (simp add: SiteflowAPI_get_flow_phases_def dispatch_def split: prod.splits bool.splits)

lemma post_data_api_pair: "post_data rt w url payload = (r, w') \<Longrightarrow> api w' = api w"
  using post_data_api [of rt w url payload] by simp

lemma add_phase_to_flow_api:
  "api (snd (SiteflowAPI_add_phase_to_flow rt w f n d k a c))
     = api (snd (no_token_and_not_authenticate rt w))"
  by (auto simp: SiteflowAPI_add_phase_to_flow_def Let_def
      split: prod.splits bool.splits sum.splits dest: post_data_api_pair)

lemma add_step_to_phase_api:
  "api (snd (SiteflowAPI_add_step_to_phase rt w p n d k bs))
     = api (snd (no_token_and_not_authenticate rt w))"
  by (auto simp: SiteflowAPI_add_step_to_phase_def Let_def
      split: prod.splits bool.splits sum.splits dest: post_data_api_pair)

lemma authenticate_on_object:
  assumes "http rt (sent w) (authenticate_request rt (api w)) = Response r"
    and "status_code r = 200" and "resp_json r = Inr (JObject kvs)"
  shows "SiteflowAPI_authenticate rt w
           = (True, w\<lparr>api := (api w)\<lparr>access_token :=
                          (case map_of kvs ''accessToken'' of None \<Rightarrow> JNull | Some t \<Rightarrow> t)\<rparr>,
                       sent := sent w @ [authenticate_request rt (api w)]\<rparr>)"
  using assms by (simp add: SiteflowAPI_authenticate_def dispatch_def)

lemma create_flow_api:
  "api (snd (SiteflowAPI_create_flow rt w n p t d c f fc r))
     = api (snd (no_token_and_not_authenticate rt w))"
  by (simp add: SiteflowAPI_create_flow_def post_data_api Let_def
      split: prod.splits bool.splits)

lemma update_step_text_api:
  "api (snd (SiteflowAPI_update_step_text rt w s t))
     = api (snd (no_token_and_not_authenticate rt w))"
  by (simp add: SiteflowAPI_update_step_text_def patch_data_api split: prod.splits bool.splits)

text \<open>
  C5. When the authentication request raises (transport failure), or is answered with a
  status other than 200, or with a body that is not valid JSON, \<^verbatim>\<open>authenticate\<close> returns
  \<^verbatim>\<open>False\<close>, and the client is as it was before the call: an absent token stays absent
  and a stale one stays. The only change to the state is the request in the log.
\<close>

theorem authenticate_failure_keeps_token:
  assumes "case http rt (sent w) (authenticate_request rt (api w)) of
             Raised e \<Rightarrow> True
           | Response r \<Rightarrow> status_code r \<noteq> 200 \<or> isl (resp_json r)"
  shows "fst (SiteflowAPI_authenticate rt w) = False
         \<and> access_token (api (snd (SiteflowAPI_authenticate rt w))) = access_token (api w)
         \<and> snd (SiteflowAPI_authenticate rt w)
             = w\<lparr>sent := sent w @ [authenticate_request rt (api w)]\<rparr>"
  using assms
  by (auto simp: SiteflowAPI_authenticate_def dispatch_def split: outcome.splits sum.splits)

theorem authenticate_failure_keeps_token_witness:
  "(case http (example_runtime (\<lambda>h q. reply 401 ''Unauthorized'' (Inl ''Expecting value'')))
           (sent \<lparr>api = example_api\<lparr>access_token := JString ''stale''\<rparr>, sent = []\<rparr>)
           (authenticate_request
              (example_runtime (\<lambda>h q. reply 401 ''Unauthorized'' (Inl ''Expecting value'')))
              (api \<lparr>api = example_api\<lparr>access_token := JString ''stale''\<rparr>, sent = []\<rparr>)) of
      Raised e \<Rightarrow> True
    | Response r \<Rightarrow> status_code r \<noteq> 200 \<or> isl (resp_json r))
   \<and> fst (SiteflowAPI_authenticate
            (example_runtime (\<lambda>h q. reply 401 ''Unauthorized'' (Inl ''Expecting value'')))
            \<lparr>api = example_api\<lparr>access_token := JString ''stale''\<rparr>, sent = []\<rparr>) = False
   \<and> access_token (api (snd (SiteflowAPI_authenticate
            (example_runtime (\<lambda>h q. reply 401 ''Unauthorized'' (Inl ''Expecting value'')))
            \<lparr>api = example_api\<lparr>access_token := JString ''stale''\<rparr>, sent = []\<rparr>)))
       = JString ''stale''"
  using authenticate_failure_keeps_token
          [of "example_runtime (\<lambda>h q. reply 401 ''Unauthorized'' (Inl ''Expecting value''))"
              "\<lparr>api = example_api\<lparr>access_token := JString ''stale''\<rparr>, sent = []\<rparr>"]
  by (simp add: example_defs)

text \<open>
  C3 as stated fails: \<^verbatim>\<open>authenticate\<close> returns \<^verbatim>\<open>True\<close> on every 200 response whose
  body is a JSON object, whatever its \<^verbatim>\<open>accessToken\<close> field holds. Answered with
  \<^verbatim>\<open>{"accessToken": ""}\<close> it returns \<^verbatim>\<open>True\<close> and stores the empty string, which is
  neither absent nor a non-empty string.
\<close>

theorem authenticate_true_empty_token_counterexample:
  "fst (SiteflowAPI_authenticate
          (example_runtime (\<lambda>h q. reply 200 ''{\"accessToken\": \"\"}''
                                     (Inr (JObject [(''accessToken'', JString [])]))))
          \<lparr>api = example_api, sent = []\<rparr>)
   \<and> access_token (api (snd (SiteflowAPI_authenticate
          (example_runtime (\<lambda>h q. reply 200 ''{\"accessToken\": \"\"}''
                                     (Inr (JObject [(''accessToken'', JString [])]))))
          \<lparr>api = example_api, sent = []\<rparr>))) = JString []"
  by (simp add: example_defs SiteflowAPI_authenticate_def dispatch_def)

text \<open>
  C3, amended. \<^verbatim>\<open>authenticate\<close> returns \<^verbatim>\<open>True\<close> exactly when the request is answered
  with status 200 and a body that is a JSON object: then the token it stores is the value
  of that object's \<^verbatim>\<open>accessToken\<close> field, \<^verbatim>\<open>None\<close> when the field is missing, and
  nothing else of the client changes. When it returns \<^verbatim>\<open>False\<close> the token is unchanged.
  Each of the six resource operations leaves the client as it was, or, when the token was
  not truthy, as its one call of \<^verbatim>\<open>authenticate\<close> left it.
\<close>

theorem token_after_operations:
  "(SiteflowAPI_authenticate rt w = (ok, w') \<longrightarrow>
      (if ok
       then \<exists>r kvs. http rt (sent w) (authenticate_request rt (api w)) = Response r
              \<and> status_code r = 200 \<and> resp_json r = Inr (JObject kvs)
              \<and> access_token (api w')
                  = (case map_of kvs ''accessToken'' of None \<Rightarrow> JNull | Some t \<Rightarrow> t)
       else access_token (api w') = access_token (api w)))
   \<and> (\<forall>r kvs. http rt (sent w) (authenticate_request rt (api w)) = Response r
          \<and> status_code r = 200 \<and> resp_json r = Inr (JObject kvs) \<longrightarrow>
          SiteflowAPI_authenticate rt w
            = (True, w\<lparr>api := (api w)\<lparr>access_token :=
                           (case map_of kvs ''accessToken'' of None \<Rightarrow> JNull | Some t \<Rightarrow> t)\<rparr>,
                        sent := sent w @ [authenticate_request rt (api w)]\<rparr>))
   \<and> (fst (SiteflowAPI_authenticate rt w) \<longleftrightarrow>
        (case http rt (sent w) (authenticate_request rt (api w)) of
           Raised e \<Rightarrow> False
         | Response r \<Rightarrow>
             status_code r = 200
             \<and> (case resp_json r of Inr (JObject kvs) \<Rightarrow> True | _ \<Rightarrow> False)))
   \<and> (\<forall>w1 \<in> {snd (SiteflowAPI_get_flows rt w),
               snd (SiteflowAPI_get_flow_phases rt w flow_id),
               snd (SiteflowAPI_add_phase_to_flow rt w flow_id name description k a c),
               snd (SiteflowAPI_add_step_to_phase rt w phase_id name description k blocks),
               snd (SiteflowAPI_create_flow rt w name p t description cat fam code ref),
               snd (SiteflowAPI_update_step_text rt w step_id content)}.
         api w1 = api w
         \<or> \<not> truthy (access_token (api w))
           \<and> api w1 = api (snd (SiteflowAPI_authenticate rt w)))"
proof -
  have a: "SiteflowAPI_authenticate rt w = (ok, w') \<longrightarrow>
      (if ok
       then \<exists>r kvs. http rt (sent w) (authenticate_request rt (api w)) = Response r
              \<and> status_code r = 200 \<and> resp_json r = Inr (JObject kvs)
              \<and> access_token (api w')
                  = (case map_of kvs ''accessToken'' of None \<Rightarrow> JNull | Some t \<Rightarrow> t)
       else access_token (api w') = access_token (api w))"
  proof (cases ok)
    case True
    show ?thesis
    proof
      assume "SiteflowAPI_authenticate rt w = (ok, w')"
      with True have "SiteflowAPI_authenticate rt w = (True, w')" by simp
      from authenticate_True [OF this] obtain r kvs where
        "http rt (sent w) (authenticate_request rt (api w)) = Response r"
        "status_code r = 200" "resp_json r = Inr (JObject kvs)"
        "api w' = (api w)\<lparr>access_token :=
                 (case map_of kvs ''accessToken'' of None \<Rightarrow> JNull | Some t \<Rightarrow> t)\<rparr>"
        by blast
      then show "if ok
       then \<exists>r kvs. http rt (sent w) (authenticate_request rt (api w)) = Response r
              \<and> status_code r = 200 \<and> resp_json r = Inr (JObject kvs)
              \<and> access_token (api w')
                  = (case map_of kvs ''accessToken'' of None \<Rightarrow> JNull | Some t \<Rightarrow> t)
       else access_token (api w') = access_token (api w)"
        using True by simp
    qed
  next
    case False
    then show ?thesis using authenticate_False [of rt w w'] by auto
  qed
  have b: "\<forall>r kvs. http rt (sent w) (authenticate_request rt (api w)) = Response r
          \<and> status_code r = 200 \<and> resp_json r = Inr (JObject kvs) \<longrightarrow>
          SiteflowAPI_authenticate rt w
            = (True, w\<lparr>api := (api w)\<lparr>access_token :=
                           (case map_of kvs ''accessToken'' of None \<Rightarrow> JNull | Some t \<Rightarrow> t)\<rparr>,
                        sent := sent w @ [authenticate_request rt (api w)]\<rparr>)"
    using authenticate_on_object by blast
  have c: "fst (SiteflowAPI_authenticate rt w) \<longleftrightarrow>
        (case http rt (sent w) (authenticate_request rt (api w)) of
           Raised e \<Rightarrow> False
         | Response r \<Rightarrow>
             status_code r = 200
             \<and> (case resp_json r of Inr (JObject kvs) \<Rightarrow> True | _ \<Rightarrow> False))"
    by (simp add: SiteflowAPI_authenticate_def dispatch_def
        split: outcome.splits sum.splits json.splits)
  have g: "api (snd (no_token_and_not_authenticate rt w)) = api w
         \<or> \<not> truthy (access_token (api w))
           \<and> api (snd (no_token_and_not_authenticate rt w))
               = api (snd (SiteflowAPI_authenticate rt w))"
    by (simp add: guard_world)
  have ops: "\<forall>w1 \<in> {snd (SiteflowAPI_get_flows rt w),
               snd (SiteflowAPI_get_flow_phases rt w flow_id),
               snd (SiteflowAPI_add_phase_to_flow rt w flow_id name description k a c),
               snd (SiteflowAPI_add_step_to_phase rt w phase_id name description k blocks),
               snd (SiteflowAPI_create_flow rt w name p t description cat fam code ref),
               snd (SiteflowAPI_update_step_text rt w step_id content)}.
         api w1 = api w
         \<or> \<not> truthy (access_token (api w))
           \<and> api w1 = api (snd (SiteflowAPI_authenticate rt w))"
    using g
    by (simp add: get_flows_api get_flow_phases_api add_phase_to_flow_api
        add_step_to_phase_api create_flow_api update_step_text_api)
  from a b c ops show ?thesis by blast
qed

theorem token_after_operations_witness:
  "http (example_runtime (\<lambda>h q. reply 200 ''{}''
           (Inr (JObject [(''accessToken'', JString ''tok1'')])))) []
      (authenticate_request
         (example_runtime (\<lambda>h q. reply 200 ''{}''
            (Inr (JObject [(''accessToken'', JString ''tok1'')]))))
         example_api)
     = Response \<lparr>status_code = 200, resp_text = ''{}'', resp_headers = [],
                 resp_json = Inr (JObject [(''accessToken'', JString ''tok1'')])\<rparr>
   \<and> SiteflowAPI_authenticate
      (example_runtime (\<lambda>h q. reply 200 ''{}''
         (Inr (JObject [(''accessToken'', JString ''tok1'')]))))
      \<lparr>api = example_api, sent = []\<rparr>
    = (True, \<lparr>api = example_api\<lparr>access_token := JString ''tok1''\<rparr>,
              sent = [authenticate_request
                        (example_runtime (\<lambda>h q. reply 200 ''{}''
                           (Inr (JObject [(''accessToken'', JString ''tok1'')]))))
                        example_api]\<rparr>)
   \<and> (\<exists>r kvs. http (example_runtime (\<lambda>h q. reply 200 ''{}''
                        (Inr (JObject [(''accessToken'', JString ''tok1'')])))) []
                 (authenticate_request
                    (example_runtime (\<lambda>h q. reply 200 ''{}''
                       (Inr (JObject [(''accessToken'', JString ''tok1'')]))))
                    example_api) = Response r
         \<and> status_code r = 200 \<and> resp_json r = Inr (JObject kvs)
         \<and> JString ''tok1''
             = (case map_of kvs ''accessToken'' of None \<Rightarrow> JNull | Some t \<Rightarrow> t))"
proof -
  let ?rt = "example_runtime (\<lambda>h q. reply 200 ''{}''
               (Inr (JObject [(''accessToken'', JString ''tok1'')])))"
  let ?w = "\<lparr>api = example_api, sent = []\<rparr>"
  let ?w' = "\<lparr>api = example_api\<lparr>access_token := JString ''tok1''\<rparr>,
              sent = [authenticate_request ?rt example_api]\<rparr>"
  let ?r = "\<lparr>status_code = 200, resp_text = ''{}'', resp_headers = [],
             resp_json = Inr (JObject [(''accessToken'', JString ''tok1'')])\<rparr>"
  have h: "http ?rt [] (authenticate_request ?rt example_api) = Response ?r"
    by (simp add: example_runtime_def reply_def)
  from token_after_operations [of ?rt ?w True ?w', THEN conjunct2, THEN conjunct1,
         rule_format, of ?r "[(''accessToken'', JString ''tok1'')]"] h
  have e: "SiteflowAPI_authenticate ?rt ?w = (True, ?w')"
    by simp
  from token_after_operations [of ?rt ?w True ?w', THEN conjunct1] e
  have "\<exists>r kvs. http ?rt (sent ?w) (authenticate_request ?rt (api ?w)) = Response r
              \<and> status_code r = 200 \<and> resp_json r = Inr (JObject kvs)
              \<and> access_token (api ?w')
                  = (case map_of kvs ''accessToken'' of None \<Rightarrow> JNull | Some t \<Rightarrow> t)"
    by simp
  then have "\<exists>r kvs. http ?rt [] (authenticate_request ?rt example_api) = Response r
              \<and> status_code r = 200 \<and> resp_json r = Inr (JObject kvs)
              \<and> JString ''tok1''
                  = (case map_of kvs ''accessToken'' of None \<Rightarrow> JNull | Some t \<Rightarrow> t)"
    by simp
  with h e show ?thesis by blast
qed

section \<open>Headers\<close>

lemma replace_empty_absent:
  "\<not> sublist old s \<Longrightarrow> replace_empty old s = s"
proof (induction s)
  case Nil
  then show ?case by simp
next
  case (Cons c cs)
  then have "\<not> prefix old (c # cs)" and "\<not> sublist old cs"
    by (auto simp: sublist_Cons_right)
  with Cons.IH show ?case by simp
qed

lemma strip_https:
  assumes "\<not> sublist ''https://'' d" and "\<not> sublist ''http://'' d"
  shows "replace_empty ''http://'' (replace_empty ''https://'' (''https://'' @ d)) = d"
  using assms by (simp add: replace_empty_absent)

lemma strip_http:
  assumes "\<not> sublist ''https://'' d" and "\<not> sublist ''http://'' d"
  shows "replace_empty ''http://'' (replace_empty ''https://'' (''http://'' @ d)) = d"
  using assms by (simp add: replace_empty_absent)

lemma get_headers_eq:
  "get_headers rt self =
     [(''accept'', ''application/json''), (''Content-Type'', ''application/json''),
      (''User-Agent'', ''Mozilla/5.0''),
      (''Host'', replace_empty ''http://'' (replace_empty ''https://'' (server_url self))),
      (''Origin'', server_url self), (''Referer'', server_url self)]
     @ (if truthy (access_token self)
        then [(''Authorization'', ''Bearer '' @ py_str rt (access_token self))] else [])"
  by (simp add: get_headers_def Let_def)

text \<open>
  C7 as stated fails in one direction: the header is added when the token is truthy
  (\<^verbatim>\<open>if self.access_token:\<close>), not when it is set. A client whose token is the empty
  string has a token and no \<^verbatim>\<open>Authorization\<close> header.
\<close>

theorem get_headers_empty_token_counterexample:
  "access_token (example_api\<lparr>access_token := JString []\<rparr>) \<noteq> JNull
   \<and> map_of (get_headers (example_runtime (\<lambda>h q. Raised []))
               (example_api\<lparr>access_token := JString []\<rparr>)) ''Authorization'' = None"
  by (simp add: example_defs get_headers_eq)

text \<open>
  C7, amended. \<^verbatim>\<open>get_headers\<close> reads only the server URL and the token of the client.
  The mapping always has \<^verbatim>\<open>accept\<close>, \<^verbatim>\<open>Content-Type\<close>, \<^verbatim>\<open>User-Agent\<close>, \<^verbatim>\<open>Host\<close>,
  \<^verbatim>\<open>Origin\<close> and \<^verbatim>\<open>Referer\<close>. \<^verbatim>\<open>Host\<close> is the server URL with every occurrence of
  \<^verbatim>\<open>https://\<close> and then of \<^verbatim>\<open>http://\<close> removed, which for a URL made of one scheme and a
  rest without either is the rest. \<^verbatim>\<open>Authorization\<close> is there exactly when the token is
  truthy, with the value \<^verbatim>\<open>Bearer\<close> followed by the token; a non-empty string token is
  followed as it is.
\<close>

theorem get_headers_contents:
  "(server_url self = server_url other \<and> access_token self = access_token other
      \<longrightarrow> get_headers rt self = get_headers rt other)
   \<and> map_of (get_headers rt self) ''accept'' = Some ''application/json''
   \<and> map_of (get_headers rt self) ''Content-Type'' = Some ''application/json''
   \<and> map_of (get_headers rt self) ''User-Agent'' = Some ''Mozilla/5.0''
   \<and> map_of (get_headers rt self) ''Host''
       = Some (replace_empty ''http://'' (replace_empty ''https://'' (server_url self)))
   \<and> map_of (get_headers rt self) ''Origin'' = Some (server_url self)
   \<and> map_of (get_headers rt self) ''Referer'' = Some (server_url self)
   \<and> map_of (get_headers rt self) ''Authorization''
       = (if truthy (access_token self)
          then Some (''Bearer '' @ py_str rt (access_token self)) else None)
   \<and> (\<forall>t. access_token self = JString t \<and> t \<noteq> []
          \<longrightarrow> map_of (get_headers rt self) ''Authorization'' = Some (''Bearer '' @ t))
   \<and> (\<forall>d. (server_url self = ''https://'' @ d \<or> server_url self = ''http://'' @ d)
            \<and> \<not> sublist ''https://'' d \<and> \<not> sublist ''http://'' d
          \<longrightarrow> map_of (get_headers rt self) ''Host'' = Some d)"
proof -
  have host: "map_of (get_headers rt self) ''Host''
       = Some (replace_empty ''http://'' (replace_empty ''https://'' (server_url self)))"
    by (simp add: get_headers_eq)
  have strip: "\<forall>d. (server_url self = ''https://'' @ d \<or> server_url self = ''http://'' @ d)
            \<and> \<not> sublist ''https://'' d \<and> \<not> sublist ''http://'' d
          \<longrightarrow> map_of (get_headers rt self) ''Host'' = Some d"
    using strip_https strip_http by (auto simp only: host)
  have auth: "map_of (get_headers rt self) ''Authorization''
       = (if truthy (access_token self)
          then Some (''Bearer '' @ py_str rt (access_token self)) else None)"
    by (simp add: get_headers_eq)
  have pure: "server_url self = server_url other \<and> access_token self = access_token other
      \<longrightarrow> get_headers rt self = get_headers rt other"
    by (simp add: get_headers_eq)
  show ?thesis
    using host strip auth pure by (simp add: get_headers_eq)
qed

theorem get_headers_contents_witness:
  "server_url (example_api\<lparr>access_token := JString ''tok1''\<rparr>)
     = ''https://'' @ ''poc-ai.siteflow.co''
   \<and> \<not> sublist ''https://'' ''poc-ai.siteflow.co''
   \<and> \<not> sublist ''http://'' ''poc-ai.siteflow.co''
   \<and> map_of (get_headers (example_runtime (\<lambda>h q. Raised []))
               (example_api\<lparr>access_token := JString ''tok1''\<rparr>)) ''Host''
       = Some ''poc-ai.siteflow.co''
   \<and> map_of (get_headers (example_runtime (\<lambda>h q. Raised []))
               (example_api\<lparr>access_token := JString ''tok1''\<rparr>)) ''Authorization''
       = Some ''Bearer tok1''"
proof -
  have a: "server_url (example_api\<lparr>access_token := JString ''tok1''\<rparr>)
     = ''https://'' @ ''poc-ai.siteflow.co''"
    by (simp add: example_api_def)
  have b: "\<not> sublist ''https://'' ''poc-ai.siteflow.co''"
    by (simp add: sublist_Cons_right)
  have c: "\<not> sublist ''http://'' ''poc-ai.siteflow.co''"
    by (simp add: sublist_Cons_right)
  have t: "access_token (example_api\<lparr>access_token := JString ''tok1''\<rparr>) = JString ''tok1''
           \<and> ''tok1'' \<noteq> []"
    by simp
  note h = get_headers_contents [of "example_api\<lparr>access_token := JString ''tok1''\<rparr>"
              "example_api\<lparr>access_token := JString ''tok1''\<rparr>"
              "example_runtime (\<lambda>h q. Raised [])"]
  from h a b c have "map_of (get_headers (example_runtime (\<lambda>h q. Raised []))
               (example_api\<lparr>access_token := JString ''tok1''\<rparr>)) ''Host''
       = Some ''poc-ai.siteflow.co''"
    by blast
  moreover from h t have "map_of (get_headers (example_runtime (\<lambda>h q. Raised []))
               (example_api\<lparr>access_token := JString ''tok1''\<rparr>)) ''Authorization''
       = Some (''Bearer '' @ ''tok1'')"
    by blast
  ultimately show ?thesis using a b c by simp
qed

section \<open>Listing flows and phases\<close>

lemma data_or_empty_failed:
  "upstream_failed_or_empty out \<Longrightarrow> data_or_empty out = JArray []"
  by (auto simp: upstream_failed_or_empty_def data_or_empty_def raise_for_status_def
      split: outcome.splits sum.splits json.splits)

lemma guard_no_token:
  "\<not> truthy (access_token (api w)) \<Longrightarrow> \<not> fst (SiteflowAPI_authenticate rt w)
     \<Longrightarrow> no_token_and_not_authenticate rt w = (True, snd (SiteflowAPI_authenticate rt w))"
  by (cases "SiteflowAPI_authenticate rt w") (simp add: no_token_and_not_authenticate_def)

text \<open>
  C6 as stated fails for a status that is not 2xx and not an error status either:
  \<^verbatim>\<open>raise_for_status\<close> raises for 400 to 599 only, so a 300 response with a JSON body
  is decoded and its \<^verbatim>\<open>data\<close> returned.
\<close>

theorem get_flows_status_300_counterexample:
  "fst (SiteflowAPI_get_flows
          (example_runtime (\<lambda>h q. reply 300 ''{\"data\": [{\"identifier\": \"f1\"}]}''
             (Inr (JObject [(''data'', JArray [JObject [(''identifier'', JString ''f1'')]])]))))
          \<lparr>api = example_api\<lparr>access_token := JString ''tok1''\<rparr>, sent = []\<rparr>)
     = JArray [JObject [(''identifier'', JString ''f1'')]]"
  by (simp add: example_defs SiteflowAPI_get_flows_def no_token_and_not_authenticate_def
      dispatch_def data_or_empty_def raise_for_status_def)

text \<open>
  C6, amended. \<^verbatim>\<open>get_flows\<close> and \<^verbatim>\<open>get_flow_phases\<close> return the empty list when no
  truthy token is cached and \<^verbatim>\<open>authenticate\<close> returns \<^verbatim>\<open>False\<close>, and, once past that
  guard, when the call raises, when the status is between 400 and 599, and when the body
  is a JSON object whose \<^verbatim>\<open>data\<close> is the empty list. Both operations return a value in
  every case: each raising step of the source is inside a \<^verbatim>\<open>try\<close> that returns the empty
  list.
\<close>

theorem listing_empty_on_failure:
  "(\<not> truthy (access_token (api w)) \<and> \<not> fst (SiteflowAPI_authenticate rt w) \<longrightarrow>
       SiteflowAPI_get_flows rt w = (JArray [], snd (SiteflowAPI_authenticate rt w))
     \<and> SiteflowAPI_get_flow_phases rt w flow_id
         = (JArray [], snd (SiteflowAPI_authenticate rt w)))
   \<and> (no_token_and_not_authenticate rt w = (False, w1)
       \<and> upstream_failed_or_empty (http rt (sent w1) (get_flows_request rt (api w1)))
      \<longrightarrow> fst (SiteflowAPI_get_flows rt w) = JArray [])
   \<and> (no_token_and_not_authenticate rt w = (False, w1)
       \<and> upstream_failed_or_empty
            (http rt (sent w1) (get_flow_phases_request rt (api w1) flow_id))
      \<longrightarrow> fst (SiteflowAPI_get_flow_phases rt w flow_id) = JArray [])"
proof -
  have auth: "\<not> truthy (access_token (api w)) \<and> \<not> fst (SiteflowAPI_authenticate rt w) \<longrightarrow>
       SiteflowAPI_get_flows rt w = (JArray [], snd (SiteflowAPI_authenticate rt w))
     \<and> SiteflowAPI_get_flow_phases rt w flow_id
         = (JArray [], snd (SiteflowAPI_authenticate rt w))"
    by (simp add: SiteflowAPI_get_flows_def SiteflowAPI_get_flow_phases_def guard_no_token)
  have flows: "no_token_and_not_authenticate rt w = (False, w1)
       \<and> upstream_failed_or_empty (http rt (sent w1) (get_flows_request rt (api w1)))
      \<longrightarrow> fst (SiteflowAPI_get_flows rt w) = JArray []"
    by (simp add: SiteflowAPI_get_flows_def dispatch_def data_or_empty_failed)
  have phases: "no_token_and_not_authenticate rt w = (False, w1)
       \<and> upstream_failed_or_empty
            (http rt (sent w1) (get_flow_phases_request rt (api w1) flow_id))
      \<longrightarrow> fst (SiteflowAPI_get_flow_phases rt w flow_id) = JArray []"
    by (simp add: SiteflowAPI_get_flow_phases_def dispatch_def data_or_empty_failed)
  from auth flows phases show ?thesis by blast
qed

theorem listing_empty_on_failure_witness:
  "no_token_and_not_authenticate
      (example_runtime (\<lambda>h q. reply 404 ''Not Found'' (Inl ''Expecting value'')))
      \<lparr>api = example_api\<lparr>access_token := JString ''tok1''\<rparr>, sent = []\<rparr>
     = (False, \<lparr>api = example_api\<lparr>access_token := JString ''tok1''\<rparr>, sent = []\<rparr>)
   \<and> upstream_failed_or_empty (reply 404 ''Not Found'' (Inl ''Expecting value''))
   \<and> fst (SiteflowAPI_get_flows
            (example_runtime (\<lambda>h q. reply 404 ''Not Found'' (Inl ''Expecting value'')))
            \<lparr>api = example_api\<lparr>access_token := JString ''tok1''\<rparr>, sent = []\<rparr>) = JArray []
   \<and> fst (SiteflowAPI_get_flow_phases
            (example_runtime (\<lambda>h q. reply 404 ''Not Found'' (Inl ''Expecting value'')))
            \<lparr>api = example_api\<lparr>access_token := JString ''tok1''\<rparr>, sent = []\<rparr> ''f1'')
       = JArray []
   \<and> \<not> truthy (access_token (api \<lparr>api = example_api, sent = []\<rparr>))
   \<and> \<not> fst (SiteflowAPI_authenticate
              (example_runtime (\<lambda>h q. reply 404 ''Not Found'' (Inl ''Expecting value'')))
              \<lparr>api = example_api, sent = []\<rparr>)
   \<and> fst (SiteflowAPI_get_flows
            (example_runtime (\<lambda>h q. reply 404 ''Not Found'' (Inl ''Expecting value'')))
            \<lparr>api = example_api, sent = []\<rparr>) = JArray []"
proof -
  let ?rt = "example_runtime (\<lambda>h q. reply 404 ''Not Found'' (Inl ''Expecting value''))"
  let ?w = "\<lparr>api = example_api\<lparr>access_token := JString ''tok1''\<rparr>, sent = []\<rparr>"
  let ?v = "\<lparr>api = example_api, sent = []\<rparr>"
  have g: "no_token_and_not_authenticate ?rt ?w = (False, ?w)"
    by (simp add: no_token_and_not_authenticate_def)
  have u: "upstream_failed_or_empty (reply 404 ''Not Found'' (Inl ''Expecting value''))"
    by (simp add: upstream_failed_or_empty_def reply_def)
  have h: "http ?rt s q = reply 404 ''Not Found'' (Inl ''Expecting value'')" for s q
    by (simp add: example_runtime_def)
  have n: "\<not> truthy (access_token (api ?v))"
    by (simp add: example_api_def)
  have f: "\<not> fst (SiteflowAPI_authenticate ?rt ?v)"
    by (simp add: SiteflowAPI_authenticate_def dispatch_def example_runtime_def reply_def)
  from listing_empty_on_failure [of ?w ?rt "''f1''" ?w] g u h
  have "fst (SiteflowAPI_get_flows ?rt ?w) = JArray []
        \<and> fst (SiteflowAPI_get_flow_phases ?rt ?w ''f1'') = JArray []"
    by simp
  moreover from listing_empty_on_failure [of ?v ?rt "''f1''" ?v] n f
  have "fst (SiteflowAPI_get_flows ?rt ?v) = JArray []"
    by simp
  ultimately show ?thesis using g u n f by simp
qed

section \<open>The request body of a new phase\<close>

lemma map_of_dict_set: "map_of (dict_set kvs k v) = (map_of kvs)(k \<mapsto> v)"
  by (induction kvs) (auto simp: fun_upd_twist)

lemma digit_char_value:
  assumes "n < 10"
  shows "of_char (''0123456789'' ! n) - 48 = n"
proof -
  from assms have "n \<in> {0, 1, 2, 3, 4, 5, 6, 7, 8, 9}" by auto
  then show ?thesis by auto
qed

lemma digit_char_not_minus:
  assumes "n < 10"
  shows "''0123456789'' ! n \<noteq> CHR ''-''"
proof -
  from assms have "n \<in> {0, 1, 2, 3, 4, 5, 6, 7, 8, 9}" by auto
  then show ?thesis by auto
qed

lemma nat_of_digits_snoc:
  "nat_of_digits (s @ [c]) = 10 * nat_of_digits s + (of_char c - 48)"
  by (simp add: nat_of_digits_def)

lemma nat_of_digits_str_nat: "nat_of_digits (str_nat n) = n"
proof (induction n rule: str_nat.induct)
  case (1 n)
  show ?case
  proof (cases "n < 10")
    case True
    then show ?thesis
      using digit_char_value [of n] by (simp add: str_nat.simps [of n] nat_of_digits_def)
  next
    case False
    with "1" have "nat_of_digits (str_nat (n div 10)) = n div 10" by simp
    with False show ?thesis
      using digit_char_value [of "n mod 10"]
      by (simp add: str_nat.simps [of n] nat_of_digits_snoc)
  qed
qed

lemma str_nat_first: "\<exists>c cs. str_nat n = c # cs \<and> c \<noteq> CHR ''-''"
proof (induction n rule: str_nat.induct)
  case (1 n)
  show ?case
  proof (cases "n < 10")
    case True
    then show ?thesis
      using digit_char_not_minus [of n] by (simp add: str_nat.simps [of n])
  next
    case False
    with "1" obtain c cs where "str_nat (n div 10) = c # cs" "c \<noteq> CHR ''-''" by auto
    with False show ?thesis by (simp add: str_nat.simps [of n])
  qed
qed

lemma decimal_value_str_int: "decimal_value (str_int n) = n"
proof (cases "n < 0")
  case True
  then show ?thesis
    by (simp add: decimal_value_def str_int_def nat_of_digits_str_nat)
next
  case False
  obtain c cs where s: "str_nat (nat n) = c # cs" "c \<noteq> CHR ''-''"
    using str_nat_first by blast
  have "nat_of_digits (str_nat (nat n)) = nat n" by (rule nat_of_digits_str_nat)
  with s have "int (nat_of_digits (c # cs)) = n" using False by simp
  with s False show ?thesis
    by (simp add: decimal_value_def str_int_def)
qed

lemma post_data_sent:
  "sent (snd (post_data rt w url payload))
     = sent w @ [\<lparr>req_method = POST, req_url = url, req_headers = get_headers rt (api w),
                  req_params = [], req_json = Some payload\<rparr>]"
  by (simp add: post_data_def dispatch_def split: outcome.splits sum.splits)

lemma str_nat_length: "10 ^ k \<le> n \<Longrightarrow> k < length (str_nat n)"
proof (induction k arbitrary: n)
  case 0
  obtain c cs where "str_nat n = c # cs" using str_nat_first by blast
  then show ?case by simp
next
  case (Suc k)
  then have big: "\<not> n < 10" and "10 ^ k \<le> n div 10"
    by (auto simp: not_less intro: order_trans [of 10 "10 * 10 ^ k" n])
  with Suc.IH have "k < length (str_nat (n div 10))" by simp
  with big show ?case by (simp add: str_nat.simps [of n])
qed

lemma str_of_int_power:
  assumes "0 < int_max_str_digits rt" and "int_max_str_digits rt \<le> k"
  shows "str_of_int rt (10 ^ k) = Inl ValueError"
proof -
  have e: "nat \<bar>(10::int) ^ k\<bar> = 10 ^ k" by (simp add: nat_power_eq)
  have "k < length (str_nat (10 ^ k))" by (rule str_nat_length) simp
  with assms show ?thesis unfolding str_of_int_def e by simp
qed

lemma str_of_int_within:
  "within_str_digits rt (Some n) \<Longrightarrow> str_of_int rt n = Inr (str_int n)"
  by (auto simp: within_str_digits_def str_of_int_def)

lemma str_of_int_beyond:
  "\<not> within_str_digits rt (Some n) \<Longrightarrow> str_of_int rt n = Inl ValueError"
  by (auto simp: within_str_digits_def str_of_int_def)

lemma map_of_with_usage_properties:
  "map_of (with_usage_properties d a c) =
     (if a \<or> c
      then (map_of d)(''usageProperties'' \<mapsto>
             JObject ((if a then [(''autoAdvance'', JBool True)] else [])
                      @ (if c then [(''canBeSkipped'', JBool True)] else [])))
      else map_of d)"
  by (auto simp: with_usage_properties_def Let_def map_of_dict_set)

lemma add_phase_to_flow_past_guard:
  assumes "no_token_and_not_authenticate rt w = (False, w1)"
  shows "SiteflowAPI_add_phase_to_flow rt w flow_id name description k a c =
           (case phase_data rt name description k a c of
              Inl e \<Rightarrow> (Inl e, w1)
            | Inr d \<Rightarrow>
                (Inr (fst (post_data rt w1
                             (server_url (api w1) @ ''/ext/api/2.0/flows/'' @ flow_id
                                @ ''/add-phases'')
                             (JObject [(''data'', JArray [JObject d])]))),
                 snd (post_data rt w1
                        (server_url (api w1) @ ''/ext/api/2.0/flows/'' @ flow_id
                           @ ''/add-phases'')
                        (JObject [(''data'', JArray [JObject d])]))))"
  using assms
  by (simp add: SiteflowAPI_add_phase_to_flow_def Let_def split: sum.splits prod.splits)

text \<open>
  C8 as stated fails for an ordering number beyond the digit limit of the interpreter:
  \<^verbatim>\<open>str(ordering_number)\<close> raises \<^verbatim>\<open>ValueError\<close> before the \<^verbatim>\<open>try\<close>, no request body is
  built, and the exception leaves \<^verbatim>\<open>add_phase_to_flow\<close>.
\<close>

theorem add_phase_beyond_limit_counterexample:
  "SiteflowAPI_add_phase_to_flow (example_runtime (\<lambda>h q. Raised ''Connection refused''))
      \<lparr>api = example_api\<lparr>access_token := JString ''tok1''\<rparr>, sent = []\<rparr>
      ''f1'' ''X'' None (Some beyond_limit) False False
     = (Inl ValueError, \<lparr>api = example_api\<lparr>access_token := JString ''tok1''\<rparr>, sent = []\<rparr>)"
proof -
  let ?rt = "example_runtime (\<lambda>h q. Raised ''Connection refused'')"
  let ?w = "\<lparr>api = example_api\<lparr>access_token := JString ''tok1''\<rparr>, sent = []\<rparr>"
  have g: "no_token_and_not_authenticate ?rt ?w = (False, ?w)"
    by (simp add: no_token_and_not_authenticate_def)
  have "str_of_int ?rt beyond_limit = Inl ValueError"
    unfolding beyond_limit_def
    by (rule str_of_int_power) (simp_all add: example_runtime_def)
  then have "phase_data ?rt ''X'' None (Some beyond_limit) False False = Inl ValueError"
    by (simp add: phase_data_def)
  then show ?thesis
    by (simp add: add_phase_to_flow_past_guard [OF g])
qed

text \<open>
  C8, amended. When the ordering number is within the digit limit (or there is none),
  \<^verbatim>\<open>add_phase_to_flow\<close> builds a phase object. It always has \<^verbatim>\<open>managementProperties\<close>
  equal to \<^verbatim>\<open>{"isEnabled": true}\<close>. With an ordering number \<^verbatim>\<open>n\<close> it has
  \<^verbatim>\<open>customOrderingNumber\<close> equal to the string \<^verbatim>\<open>str(n)\<close>, which read as a decimal numeral
  is \<^verbatim>\<open>n\<close> again; without one it has no such key. It has \<^verbatim>\<open>usageProperties\<close> exactly when
  \<^verbatim>\<open>auto_advance\<close> or \<^verbatim>\<open>can_be_skipped\<close> is true, and the object holds only the flags that
  are true. Once the operation is past its authentication guard, it returns a result and
  the one request it sends carries this object as the only element of \<^verbatim>\<open>data\<close>. Beyond
  the limit no object is built: past the guard the operation raises \<^verbatim>\<open>ValueError\<close> and
  sends nothing.
\<close>

theorem phase_data_contents:
  "(within_str_digits rt k \<longrightarrow>
      (\<exists>d. phase_data rt name description k a c = Inr d
         \<and> map_of d ''managementProperties'' = Some (JObject [(''isEnabled'', JBool True)])
         \<and> (\<forall>n. k = Some n \<longrightarrow>
               map_of d ''customOrderingNumber'' = Some (JString (str_int n))
               \<and> decimal_value (str_int n) = n)
         \<and> (k = None \<longrightarrow> map_of d ''customOrderingNumber'' = None)
         \<and> map_of d ''usageProperties''
             = (if a \<or> c
                then Some (JObject ((if a then [(''autoAdvance'', JBool True)] else [])
                                    @ (if c then [(''canBeSkipped'', JBool True)] else [])))
                else None)
         \<and> (\<forall>w1. no_token_and_not_authenticate rt w = (False, w1) \<longrightarrow>
               (\<exists>r. fst (SiteflowAPI_add_phase_to_flow rt w flow_id name description k a c)
                      = Inr r)
               \<and> sent (snd (SiteflowAPI_add_phase_to_flow rt w flow_id name description k
                               a c))
                   = sent w1
                     @ [\<lparr>req_method = POST,
                         req_url = server_url (api w1) @ ''/ext/api/2.0/flows/'' @ flow_id
                                     @ ''/add-phases'',
                         req_headers = get_headers rt (api w1), req_params = [],
                         req_json = Some (JObject [(''data'', JArray [JObject d])])\<rparr>])))
   \<and> (\<not> within_str_digits rt k \<longrightarrow>
        phase_data rt name description k a c = Inl ValueError
        \<and> (\<forall>w1. no_token_and_not_authenticate rt w = (False, w1) \<longrightarrow>
              SiteflowAPI_add_phase_to_flow rt w flow_id name description k a c
                = (Inl ValueError, w1)))"
proof (cases "within_str_digits rt k")
  case True
  let ?d1 = "if given description
             then dict_set [(''name'', JString name),
                             (''managementProperties'', JObject [(''isEnabled'', JBool True)])]
                    ''internalInformation'' (JString (the description))
             else [(''name'', JString name),
                   (''managementProperties'', JObject [(''isEnabled'', JBool True)])]"
  let ?d2 = "case k of None \<Rightarrow> ?d1
             | Some n \<Rightarrow> dict_set ?d1 ''customOrderingNumber'' (JString (str_int n))"
  let ?d = "with_usage_properties ?d2 a c"
  have pd: "phase_data rt name description k a c = Inr ?d"
  proof (cases k)
    case None
    then show ?thesis by (simp add: phase_data_def Let_def)
  next
    case (Some n)
    with True have "str_of_int rt n = Inr (str_int n)" by (simp add: str_of_int_within)
    with Some show ?thesis by (simp add: phase_data_def Let_def)
  qed
  have m: "map_of ?d ''managementProperties'' = Some (JObject [(''isEnabled'', JBool True)])"
    by (simp add: map_of_with_usage_properties map_of_dict_set split: option.splits)
  have o1: "\<forall>n. k = Some n \<longrightarrow>
               map_of ?d ''customOrderingNumber'' = Some (JString (str_int n))
               \<and> decimal_value (str_int n) = n"
    by (simp add: map_of_with_usage_properties map_of_dict_set decimal_value_str_int)
  have o2: "k = None \<longrightarrow> map_of ?d ''customOrderingNumber'' = None"
    by (simp add: map_of_with_usage_properties map_of_dict_set)
  have u: "map_of ?d ''usageProperties''
             = (if a \<or> c
                then Some (JObject ((if a then [(''autoAdvance'', JBool True)] else [])
                                    @ (if c then [(''canBeSkipped'', JBool True)] else [])))
                else None)"
    by (simp add: map_of_with_usage_properties map_of_dict_set split: option.splits)
  have s: "\<forall>w1. no_token_and_not_authenticate rt w = (False, w1) \<longrightarrow>
               (\<exists>r. fst (SiteflowAPI_add_phase_to_flow rt w flow_id name description k a c)
                      = Inr r)
               \<and> sent (snd (SiteflowAPI_add_phase_to_flow rt w flow_id name description k
                               a c))
                   = sent w1
                     @ [\<lparr>req_method = POST,
                         req_url = server_url (api w1) @ ''/ext/api/2.0/flows/'' @ flow_id
                                     @ ''/add-phases'',
                         req_headers = get_headers rt (api w1), req_params = [],
                         req_json = Some (JObject [(''data'', JArray [JObject ?d])])\<rparr>]"
    by (simp add: add_phase_to_flow_past_guard pd post_data_sent)
  from pd m o1 o2 u s have "\<exists>d. phase_data rt name description k a c = Inr d
         \<and> map_of d ''managementProperties'' = Some (JObject [(''isEnabled'', JBool True)])
         \<and> (\<forall>n. k = Some n \<longrightarrow>
               map_of d ''customOrderingNumber'' = Some (JString (str_int n))
               \<and> decimal_value (str_int n) = n)
         \<and> (k = None \<longrightarrow> map_of d ''customOrderingNumber'' = None)
         \<and> map_of d ''usageProperties''
             = (if a \<or> c
                then Some (JObject ((if a then [(''autoAdvance'', JBool True)] else [])
                                    @ (if c then [(''canBeSkipped'', JBool True)] else [])))
                else None)
         \<and> (\<forall>w1. no_token_and_not_authenticate rt w = (False, w1) \<longrightarrow>
               (\<exists>r. fst (SiteflowAPI_add_phase_to_flow rt w flow_id name description k a c)
                      = Inr r)
               \<and> sent (snd (SiteflowAPI_add_phase_to_flow rt w flow_id name description k
                               a c))
                   = sent w1
                     @ [\<lparr>req_method = POST,
                         req_url = server_url (api w1) @ ''/ext/api/2.0/flows/'' @ flow_id
                                     @ ''/add-phases'',
                         req_headers = get_headers rt (api w1), req_params = [],
                         req_json = Some (JObject [(''data'', JArray [JObject d])])\<rparr>])"
    by (intro exI [of _ ?d] conjI)
  with True show ?thesis by blast
next
  case False
  then obtain n where k: "k = Some n" by (cases k) (auto simp: within_str_digits_def)
  with False have "str_of_int rt n = Inl ValueError" by (simp add: str_of_int_beyond)
  with k have pd: "phase_data rt name description k a c = Inl ValueError"
    by (simp add: phase_data_def Let_def)
  then have "\<forall>w1. no_token_and_not_authenticate rt w = (False, w1) \<longrightarrow>
              SiteflowAPI_add_phase_to_flow rt w flow_id name description k a c
                = (Inl ValueError, w1)"
    by (simp add: add_phase_to_flow_past_guard)
  with False pd show ?thesis by blast
qed

theorem phase_data_contents_witness:
  "within_str_digits (example_runtime (\<lambda>h q. reply 201 ''{\"identifier\": \"ph9\"}''
                        (Inr (JObject [(''identifier'', JString ''ph9'')])))) (Some 5)
   \<and> no_token_and_not_authenticate
        (example_runtime (\<lambda>h q. reply 201 ''{\"identifier\": \"ph9\"}''
           (Inr (JObject [(''identifier'', JString ''ph9'')]))))
        \<lparr>api = example_api\<lparr>access_token := JString ''tok1''\<rparr>, sent = []\<rparr>
       = (False, \<lparr>api = example_api\<lparr>access_token := JString ''tok1''\<rparr>, sent = []\<rparr>)
   \<and> phase_data (example_runtime (\<lambda>h q. reply 201 ''{\"identifier\": \"ph9\"}''
                    (Inr (JObject [(''identifier'', JString ''ph9'')]))))
        ''X'' None (Some 5) False False
       = Inr [(''name'', JString ''X''),
              (''managementProperties'', JObject [(''isEnabled'', JBool True)]),
              (''customOrderingNumber'', JString ''5'')]
   \<and> decimal_value ''5'' = 5
   \<and> map req_json (sent (snd (SiteflowAPI_add_phase_to_flow
        (example_runtime (\<lambda>h q. reply 201 ''{\"identifier\": \"ph9\"}''
           (Inr (JObject [(''identifier'', JString ''ph9'')]))))
        \<lparr>api = example_api\<lparr>access_token := JString ''tok1''\<rparr>, sent = []\<rparr>
        ''f1'' ''X'' None (Some 5) False False)))
       = [Some (JObject [(''data'', JArray [JObject
            [(''name'', JString ''X''),
             (''managementProperties'', JObject [(''isEnabled'', JBool True)]),
             (''customOrderingNumber'', JString ''5'')]])])]"
proof -
  let ?rt = "example_runtime (\<lambda>h q. reply 201 ''{\"identifier\": \"ph9\"}''
               (Inr (JObject [(''identifier'', JString ''ph9'')])))"
  let ?w = "\<lparr>api = example_api\<lparr>access_token := JString ''tok1''\<rparr>, sent = []\<rparr>"
  let ?d = "[(''name'', JString ''X''),
             (''managementProperties'', JObject [(''isEnabled'', JBool True)]),
             (''customOrderingNumber'', JString ''5'')]"
  have five: "str_int 5 = ''5''"
    by (simp add: str_int_def str_nat.simps)
  have lim: "within_str_digits ?rt (Some 5)"
    by (simp add: within_str_digits_def str_nat.simps example_runtime_def)
  have g: "no_token_and_not_authenticate ?rt ?w = (False, ?w)"
    by (simp add: no_token_and_not_authenticate_def)
  have pd: "phase_data ?rt ''X'' None (Some 5) False False = Inr ?d"
    using str_of_int_within [OF lim]
    by (simp add: phase_data_def with_usage_properties_def five)
  from phase_data_contents [of ?rt "Some 5" "''X''" None False False ?w "''f1''",
         THEN conjunct1, rule_format, OF lim]
  obtain d where d: "phase_data ?rt ''X'' None (Some 5) False False = Inr d"
    and v: "decimal_value (str_int 5) = 5"
    and s: "\<forall>w1. no_token_and_not_authenticate ?rt ?w = (False, w1) \<longrightarrow>
               sent (snd (SiteflowAPI_add_phase_to_flow ?rt ?w ''f1'' ''X'' None (Some 5)
                            False False))
                 = sent w1
                   @ [\<lparr>req_method = POST,
                       req_url = server_url (api w1) @ ''/ext/api/2.0/flows/'' @ ''f1''
                                   @ ''/add-phases'',
                       req_headers = get_headers ?rt (api w1), req_params = [],
                       req_json = Some (JObject [(''data'', JArray [JObject d])])\<rparr>]"
    by blast
  from d pd have "d = ?d" by simp
  with s g have "map req_json (sent (snd (SiteflowAPI_add_phase_to_flow ?rt ?w ''f1'' ''X''
                                            None (Some 5) False False)))
                   = [Some (JObject [(''data'', JArray [JObject ?d])])]"
    by simp
  with lim g pd v five show ?thesis by simp
qed

section \<open>Failures of the mutating operations\<close>











section \<open>Updating the text of a step\<close>




section \<open>Validation of the thematic blocks\<close>

lemma invalid_blocks_Some:
  "b \<in> set blocks \<Longrightarrow> b \<notin> VALID_THEMATIC_BLOCKS \<Longrightarrow>
     given_list (Some blocks)
     \<and> invalid_blocks (Some blocks) = filter (\<lambda>x. x \<notin> VALID_THEMATIC_BLOCKS) blocks
     \<and> invalid_blocks (Some blocks) \<noteq> []"
  by (auto simp: invalid_blocks_def filter_empty_conv)

lemma guard_cases:
  "no_token_and_not_authenticate rt w =
     (if truthy (access_token (api w)) then (False, w)
      else (\<not> fst (SiteflowAPI_authenticate rt w), snd (SiteflowAPI_authenticate rt w)))"
  by (simp add: no_token_and_not_authenticate_def split: prod.splits)

text \<open>
  C1 as stated fails when no token is cached: \<^verbatim>\<open>add_step_to_phase\<close> runs the
  authentication guard before it looks at the blocks. With an invalid block and a failing
  authentication it sends the authenticate request and returns
  \<^verbatim>\<open>Authentication failed\<close>.
\<close>

theorem add_step_authenticates_first_counterexample:
  "SiteflowAPI_add_step_to_phase
      (example_runtime (\<lambda>h q. reply 401 ''Unauthorized'' (Inl ''Expecting value'')))
      \<lparr>api = example_api, sent = []\<rparr> ''ph1'' ''S'' None None (Some [''BOGUS''])
     = (Inr \<lparr>success = False, data = None, error = Some ''Authentication failed'',
             details = None, request_payload = None, request_url = None\<rparr>,
        \<lparr>api = example_api,
         sent = [\<lparr>req_method = POST,
                  req_url = ''https://poc-ai.siteflow.co/ext/api/2.0/authenticate'',
                  req_headers = [(''accept'', ''application/json''),
                                 (''Content-Type'', ''application/json''),
                                 (''User-Agent'', ''Mozilla/5.0''),
                                 (''Host'', ''poc-ai.siteflow.co''),
                                 (''Origin'', ''https://poc-ai.siteflow.co''),
                                 (''Referer'', ''https://poc-ai.siteflow.co'')],
                  req_params = [],
                  req_json = Some (JObject [(''clientId'', JString ''id''),
                                            (''clientSecret'', JString ''secret'')])\<rparr>]\<rparr>)"
  by (simp add: example_defs SiteflowAPI_add_step_to_phase_def guard_cases
      SiteflowAPI_authenticate_def dispatch_def authenticate_request_def get_headers_eq
      failed_def)

text \<open>
  C1, amended. Let the blocks contain a value outside the four valid ones. With a truthy
  token cached, \<^verbatim>\<open>add_step_to_phase\<close> returns the validation failure and sends nothing:
  the state is unchanged. Without one it sends exactly the authenticate request and
  nothing else, and returns the validation failure when \<^verbatim>\<open>authenticate\<close> returned
  \<^verbatim>\<open>True\<close>, \<^verbatim>\<open>Authentication failed\<close> otherwise. The add-steps request is never sent.
  The validation failure has the error \<^verbatim>\<open>Invalid thematic block types\<close>, and its details
  list the offending values, in the order given, separated by commas.
\<close>

theorem invalid_blocks_rejected_after_guard:
  assumes "b \<in> set blocks" and "b \<notin> VALID_THEMATIC_BLOCKS"
  shows "(truthy (access_token (api w)) \<longrightarrow>
            SiteflowAPI_add_step_to_phase rt w phase_id name description k (Some blocks)
              = (Inr (invalid_blocks_result rt
                        (filter (\<lambda>x. x \<notin> VALID_THEMATIC_BLOCKS) blocks)), w))
       \<and> (\<not> truthy (access_token (api w)) \<longrightarrow>
            SiteflowAPI_add_step_to_phase rt w phase_id name description k (Some blocks)
              = (Inr (if fst (SiteflowAPI_authenticate rt w)
                      then invalid_blocks_result rt
                             (filter (\<lambda>x. x \<notin> VALID_THEMATIC_BLOCKS) blocks)
                      else failed ''Authentication failed''),
                 snd (SiteflowAPI_authenticate rt w))
          \<and> sent (snd (SiteflowAPI_authenticate rt w))
              = sent w @ [authenticate_request rt (api w)])
       \<and> b \<in> set (filter (\<lambda>x. x \<notin> VALID_THEMATIC_BLOCKS) blocks)
       \<and> error (invalid_blocks_result rt (filter (\<lambda>x. x \<notin> VALID_THEMATIC_BLOCKS) blocks))
           = Some ''Invalid thematic block types''
       \<and> details (invalid_blocks_result rt (filter (\<lambda>x. x \<notin> VALID_THEMATIC_BLOCKS) blocks))
           = Some (''Invalid block types: ''
                   @ join '', '' (filter (\<lambda>x. x \<notin> VALID_THEMATIC_BLOCKS) blocks)
                   @ ''. Valid types are: '' @ join '', '' (set_iter rt))"
proof -
  let ?bad = "filter (\<lambda>x. x \<notin> VALID_THEMATIC_BLOCKS) blocks"
  from assms have mem: "b \<in> set ?bad" by simp
  from assms have ne: "?bad \<noteq> []" by (auto simp: filter_empty_conv)
  from assms have gl: "blocks \<noteq> []" by auto
  then have inv: "invalid_blocks (Some blocks) = ?bad"
    by (simp add: invalid_blocks_def)
  have op: "SiteflowAPI_add_step_to_phase rt w phase_id name description k (Some blocks)
      = (case no_token_and_not_authenticate rt w of
           (True, w1) \<Rightarrow> (Inr (failed ''Authentication failed''), w1)
         | (False, w1) \<Rightarrow> (Inr (invalid_blocks_result rt ?bad), w1))"
    using ne gl
    by (simp add: SiteflowAPI_add_step_to_phase_def inv Let_def split: prod.splits bool.splits)
  show ?thesis
    using mem by (simp add: op guard_cases authenticate_sent invalid_blocks_result_def)
qed

theorem invalid_blocks_rejected_after_guard_witness:
  "''BOGUS'' \<in> set [''INSTRUCTION'', ''BOGUS''] \<and> ''BOGUS'' \<notin> VALID_THEMATIC_BLOCKS
   \<and> truthy (access_token (api \<lparr>api = example_api\<lparr>access_token := JString ''tok1''\<rparr>,
                                 sent = []\<rparr>))
   \<and> SiteflowAPI_add_step_to_phase (example_runtime (\<lambda>h q. Raised ''unreachable''))
        \<lparr>api = example_api\<lparr>access_token := JString ''tok1''\<rparr>, sent = []\<rparr>
        ''ph1'' ''S'' None None (Some [''INSTRUCTION'', ''BOGUS''])
      = (Inr \<lparr>success = False, data = None, error = Some ''Invalid thematic block types'',
              details = Some ''Invalid block types: BOGUS. Valid types are: INSTRUCTION, CHECKLIST, FORM, SIGNATURE'',
              request_payload = None, request_url = None\<rparr>,
         \<lparr>api = example_api\<lparr>access_token := JString ''tok1''\<rparr>, sent = []\<rparr>)"
proof -
  have a: "''BOGUS'' \<in> set [''INSTRUCTION'', ''BOGUS'']" by simp
  have b: "''BOGUS'' \<notin> VALID_THEMATIC_BLOCKS" by (simp add: VALID_THEMATIC_BLOCKS_def)
  from invalid_blocks_rejected_after_guard [OF a b,
      of "\<lparr>api = example_api\<lparr>access_token := JString ''tok1''\<rparr>, sent = []\<rparr>"
         "example_runtime (\<lambda>h q. Raised ''unreachable'')" "''ph1''" "''S''" None None]
  show ?thesis
    using a by (simp add: VALID_THEMATIC_BLOCKS_def invalid_blocks_result_def
        example_runtime_def)
qed

section \<open>The tool that adds a step\<close>

lemma invalid_blocks_instruction: "invalid_blocks (Some [''INSTRUCTION'']) = []"
  by (simp add: invalid_blocks_def VALID_THEMATIC_BLOCKS_def)

lemma post_data_not_invalid: "fst (post_data rt w url payload) \<noteq> invalid_blocks_result rt bs"
  by (auto simp: post_data_def dispatch_def invalid_blocks_result_def failed_def succeeded_def
      api_error_def Let_def split: outcome.splits sum.splits)

lemma add_step_instruction:
  "SiteflowAPI_add_step_to_phase rt w phase_id name description k (Some [''INSTRUCTION''])
     = (case no_token_and_not_authenticate rt w of
          (True, w1) \<Rightarrow> (Inr (failed ''Authentication failed''), w1)
        | (False, w1) \<Rightarrow>
            (case step_data rt name description k (Some [''INSTRUCTION'']) of
               Inl e \<Rightarrow> (Inl e, w1)
             | Inr d \<Rightarrow>
                 (Inr (fst (post_data rt w1
                              (server_url (api w1) @ ''/ext/api/2.0/phases/'' @ phase_id
                                 @ ''/add-steps'')
                              (JObject [(''data'', JArray [JObject d])]))),
                  snd (post_data rt w1
                         (server_url (api w1) @ ''/ext/api/2.0/phases/'' @ phase_id
                            @ ''/add-steps'')
                         (JObject [(''data'', JArray [JObject d])])))))"
  by (simp add: SiteflowAPI_add_step_to_phase_def invalid_blocks_instruction Let_def
      split: prod.splits bool.splits sum.splits)

lemma add_step_instruction_not_invalid:
  "fst (SiteflowAPI_add_step_to_phase rt w phase_id name description k (Some [''INSTRUCTION'']))
     \<noteq> Inr (invalid_blocks_result rt bs)"
proof (cases "no_token_and_not_authenticate rt w")
  case (Pair g w1)
  show ?thesis
  proof (cases g)
    case True
    with Pair show ?thesis
      by (simp add: add_step_instruction failed_def invalid_blocks_result_def)
  next
    case False
    with Pair show ?thesis
      by (simp add: add_step_instruction post_data_not_invalid split: sum.splits)
  qed
qed

lemma step_data_instruction:
  assumes "within_str_digits rt k"
  shows "\<exists>d. step_data rt name description k (Some [''INSTRUCTION'']) = Inr d
           \<and> map_of d ''managementProperties''
               = Some (JObject [(''listEnabledThematicBlocks'',
                                 JArray [JString ''INSTRUCTION''])])"
proof (cases k)
  case None
  then show ?thesis
    by (simp add: step_data_def Let_def map_of_dict_set)
next
  case (Some n)
  with assms have "str_of_int rt n = Inr (str_int n)" by (simp add: str_of_int_within)
  with Some show ?thesis
    by (simp add: step_data_def Let_def map_of_dict_set)
qed

lemma step_data_beyond:
  assumes "\<not> within_str_digits rt k"
  shows "step_data rt name description k blocks = Inl ValueError"
proof -
  from assms obtain n where k: "k = Some n" by (cases k) (auto simp: within_str_digits_def)
  with assms have "str_of_int rt n = Inl ValueError" by (simp add: str_of_int_beyond)
  with k show ?thesis by (simp add: step_data_def Let_def)
qed

lemma tool_add_step_unfold:
  "add_step_to_phase rt w phase_id name description number blocks =
     (case convert_ordering_number rt number of
        Inl msg \<Rightarrow> (Inr msg, w)
      | Inr k \<Rightarrow>
          (case SiteflowAPI_add_step_to_phase rt w phase_id name description k
                  (Some [''INSTRUCTION'']) of
             (Inl e, w') \<Rightarrow> (Inl e, w')
           | (Inr r, w') \<Rightarrow>
               if success r then
                 (case py_get (case data r of None \<Rightarrow> JObject [] | Some d \<Rightarrow> d)
                         ''identifier'' (JString ''Unknown'') of
                    Inl e \<Rightarrow> (Inl e, w')
                  | Inr step_id \<Rightarrow>
                      (Inr (''Successfully added step '' @ [CHR 0x27] @ name
                            @ [CHR 0x27] @ '' to phase '' @ phase_id @ ''.''
                            @ [CHR 0x0A] @ ''Step ID: '' @ py_str rt step_id
                            @ [CHR 0x0A] @ ''Enabled thematic blocks: INSTRUCTION''), w'))
               else (Inr (failure_text ''Failed to add step to phase: '' r), w')))"
  by (simp add: add_step_to_phase_def Let_def split: sum.splits prod.splits)

lemma py_get_error: "py_get j key d = Inl e \<Longrightarrow> e = AttributeError"
  by (cases j) auto

text \<open>
  C2. The tool \<^verbatim>\<open>add_step_to_phase\<close> does not depend on its argument
  \<^verbatim>\<open>enabled_thematic_blocks\<close>: the parsed list is never read. When the ordering number
  does not convert, the tool returns the error text and sends nothing. Otherwise it makes
  the API call with \<^verbatim>\<open>["INSTRUCTION"]\<close>: that call never returns the validation failure;
  it stops at the authentication guard or, with an ordering number within the digit limit,
  sends one add-steps request, whose step object has \<^verbatim>\<open>managementProperties\<close> equal to
  \<^verbatim>\<open>{"listEnabledThematicBlocks": ["INSTRUCTION"]}\<close>; beyond the limit the call raises
  \<^verbatim>\<open>ValueError\<close> past the guard, no request body is built, and the tool raises it too.
  When the call succeeds, the tool either raises \<^verbatim>\<open>AttributeError\<close> (the data is not a
  dict) or returns the success text, which ends with
  \<^verbatim>\<open>Enabled thematic blocks: INSTRUCTION\<close>.
\<close>

theorem tool_add_step_always_instruction:
  "add_step_to_phase rt w phase_id name description number blocks
     = add_step_to_phase rt w phase_id name description number None
   \<and> (\<forall>msg. convert_ordering_number rt number = Inl msg \<longrightarrow>
          add_step_to_phase rt w phase_id name description number blocks = (Inr msg, w))
   \<and> (\<forall>k. convert_ordering_number rt number = Inr k \<longrightarrow>
          snd (add_step_to_phase rt w phase_id name description number blocks)
            = snd (SiteflowAPI_add_step_to_phase rt w phase_id name description k
                     (Some [''INSTRUCTION'']))
        \<and> (\<forall>bs. fst (SiteflowAPI_add_step_to_phase rt w phase_id name description k
                        (Some [''INSTRUCTION''])) \<noteq> Inr (invalid_blocks_result rt bs))
        \<and> (\<forall>w1. no_token_and_not_authenticate rt w = (True, w1) \<longrightarrow>
              snd (SiteflowAPI_add_step_to_phase rt w phase_id name description k
                     (Some [''INSTRUCTION''])) = w1)
        \<and> (within_str_digits rt k \<longrightarrow>
             (\<exists>d. step_data rt name description k (Some [''INSTRUCTION'']) = Inr d
                \<and> map_of d ''managementProperties''
                    = Some (JObject [(''listEnabledThematicBlocks'',
                                      JArray [JString ''INSTRUCTION''])])
                \<and> (\<forall>w1. no_token_and_not_authenticate rt w = (False, w1) \<longrightarrow>
                      sent (snd (SiteflowAPI_add_step_to_phase rt w phase_id name description
                                   k (Some [''INSTRUCTION'']))) =
                        sent w1
                        @ [\<lparr>req_method = POST,
                            req_url = server_url (api w1) @ ''/ext/api/2.0/phases/''
                                        @ phase_id @ ''/add-steps'',
                            req_headers = get_headers rt (api w1), req_params = [],
                            req_json = Some (JObject [(''data'',
                                         JArray [JObject d])])\<rparr>])))
        \<and> (\<not> within_str_digits rt k \<longrightarrow>
             (\<forall>w1. no_token_and_not_authenticate rt w = (False, w1) \<longrightarrow>
                add_step_to_phase rt w phase_id name description number blocks
                  = (Inl ValueError, w1)))
        \<and> (\<forall>r. fst (SiteflowAPI_add_step_to_phase rt w phase_id name description k
                       (Some [''INSTRUCTION''])) = Inr r \<and> success r
            \<longrightarrow> (case fst (add_step_to_phase rt w phase_id name description number blocks) of
                   Inl e \<Rightarrow> e = AttributeError
                 | Inr text \<Rightarrow>
                     \<exists>step_id. text =
                       ''Successfully added step '' @ [CHR 0x27] @ name @ [CHR 0x27]
                       @ '' to phase '' @ phase_id @ ''.'' @ [CHR 0x0A]
                       @ ''Step ID: '' @ step_id @ [CHR 0x0A]
                       @ ''Enabled thematic blocks: INSTRUCTION'')))"
proof -
  have indep: "add_step_to_phase rt w phase_id name description number blocks
     = add_step_to_phase rt w phase_id name description number None"
    by (simp add: tool_add_step_unfold)
  have early: "\<forall>msg. convert_ordering_number rt number = Inl msg \<longrightarrow>
          add_step_to_phase rt w phase_id name description number blocks = (Inr msg, w)"
    by (simp add: tool_add_step_unfold)
  have rest: "snd (add_step_to_phase rt w phase_id name description number blocks)
            = snd (SiteflowAPI_add_step_to_phase rt w phase_id name description k
                     (Some [''INSTRUCTION'']))
        \<and> (\<forall>bs. fst (SiteflowAPI_add_step_to_phase rt w phase_id name description k
                        (Some [''INSTRUCTION''])) \<noteq> Inr (invalid_blocks_result rt bs))
        \<and> (\<forall>w1. no_token_and_not_authenticate rt w = (True, w1) \<longrightarrow>
              snd (SiteflowAPI_add_step_to_phase rt w phase_id name description k
                     (Some [''INSTRUCTION''])) = w1)
        \<and> (within_str_digits rt k \<longrightarrow>
             (\<exists>d. step_data rt name description k (Some [''INSTRUCTION'']) = Inr d
                \<and> map_of d ''managementProperties''
                    = Some (JObject [(''listEnabledThematicBlocks'',
                                      JArray [JString ''INSTRUCTION''])])
                \<and> (\<forall>w1. no_token_and_not_authenticate rt w = (False, w1) \<longrightarrow>
                      sent (snd (SiteflowAPI_add_step_to_phase rt w phase_id name description
                                   k (Some [''INSTRUCTION'']))) =
                        sent w1
                        @ [\<lparr>req_method = POST,
                            req_url = server_url (api w1) @ ''/ext/api/2.0/phases/''
                                        @ phase_id @ ''/add-steps'',
                            req_headers = get_headers rt (api w1), req_params = [],
                            req_json = Some (JObject [(''data'',
                                         JArray [JObject d])])\<rparr>])))
        \<and> (\<not> within_str_digits rt k \<longrightarrow>
             (\<forall>w1. no_token_and_not_authenticate rt w = (False, w1) \<longrightarrow>
                add_step_to_phase rt w phase_id name description number blocks
                  = (Inl ValueError, w1)))
        \<and> (\<forall>r. fst (SiteflowAPI_add_step_to_phase rt w phase_id name description k
                       (Some [''INSTRUCTION''])) = Inr r \<and> success r
            \<longrightarrow> (case fst (add_step_to_phase rt w phase_id name description number blocks) of
                   Inl e \<Rightarrow> e = AttributeError
                 | Inr text \<Rightarrow>
                     \<exists>step_id. text =
                       ''Successfully added step '' @ [CHR 0x27] @ name @ [CHR 0x27]
                       @ '' to phase '' @ phase_id @ ''.'' @ [CHR 0x0A]
                       @ ''Step ID: '' @ step_id @ [CHR 0x0A]
                       @ ''Enabled thematic blocks: INSTRUCTION''))"
    if k: "convert_ordering_number rt number = Inr k" for k
  proof -
    let ?op = "SiteflowAPI_add_step_to_phase rt w phase_id name description k
                 (Some [''INSTRUCTION''])"
    let ?tool = "add_step_to_phase rt w phase_id name description number blocks"
    have s: "snd ?tool = snd ?op"
      by (simp add: tool_add_step_unfold k split: prod.splits sum.splits)
    have v: "\<forall>bs. fst ?op \<noteq> Inr (invalid_blocks_result rt bs)"
      by (simp add: add_step_instruction_not_invalid)
    have g1: "\<forall>w1. no_token_and_not_authenticate rt w = (True, w1) \<longrightarrow> snd ?op = w1"
      by (simp add: add_step_instruction)
    have g2: "within_str_digits rt k \<longrightarrow>
             (\<exists>d. step_data rt name description k (Some [''INSTRUCTION'']) = Inr d
                \<and> map_of d ''managementProperties''
                    = Some (JObject [(''listEnabledThematicBlocks'',
                                      JArray [JString ''INSTRUCTION''])])
                \<and> (\<forall>w1. no_token_and_not_authenticate rt w = (False, w1) \<longrightarrow>
                      sent (snd ?op) =
                        sent w1
                        @ [\<lparr>req_method = POST,
                            req_url = server_url (api w1) @ ''/ext/api/2.0/phases/''
                                        @ phase_id @ ''/add-steps'',
                            req_headers = get_headers rt (api w1), req_params = [],
                            req_json = Some (JObject [(''data'',
                                         JArray [JObject d])])\<rparr>]))"
    proof
      assume "within_str_digits rt k"
      from step_data_instruction [OF this, of name description] obtain d where
        d: "step_data rt name description k (Some [''INSTRUCTION'']) = Inr d"
        and m: "map_of d ''managementProperties''
                  = Some (JObject [(''listEnabledThematicBlocks'',
                                    JArray [JString ''INSTRUCTION''])])"
        by blast
      have "\<forall>w1. no_token_and_not_authenticate rt w = (False, w1) \<longrightarrow>
                      sent (snd ?op) =
                        sent w1
                        @ [\<lparr>req_method = POST,
                            req_url = server_url (api w1) @ ''/ext/api/2.0/phases/''
                                        @ phase_id @ ''/add-steps'',
                            req_headers = get_headers rt (api w1), req_params = [],
                            req_json = Some (JObject [(''data'',
                                         JArray [JObject d])])\<rparr>]"
        by (simp add: add_step_instruction d post_data_sent)
      with d m show "\<exists>d. step_data rt name description k (Some [''INSTRUCTION'']) = Inr d
                \<and> map_of d ''managementProperties''
                    = Some (JObject [(''listEnabledThematicBlocks'',
                                      JArray [JString ''INSTRUCTION''])])
                \<and> (\<forall>w1. no_token_and_not_authenticate rt w = (False, w1) \<longrightarrow>
                      sent (snd ?op) =
                        sent w1
                        @ [\<lparr>req_method = POST,
                            req_url = server_url (api w1) @ ''/ext/api/2.0/phases/''
                                        @ phase_id @ ''/add-steps'',
                            req_headers = get_headers rt (api w1), req_params = [],
                            req_json = Some (JObject [(''data'',
                                         JArray [JObject d])])\<rparr>])"
        by blast
    qed
    have g3: "\<not> within_str_digits rt k \<longrightarrow>
             (\<forall>w1. no_token_and_not_authenticate rt w = (False, w1) \<longrightarrow>
                ?tool = (Inl ValueError, w1))"
      by (simp add: tool_add_step_unfold k add_step_instruction step_data_beyond)
    have t: "\<forall>r. fst ?op = Inr r \<and> success r
            \<longrightarrow> (case fst ?tool of
                   Inl e \<Rightarrow> e = AttributeError
                 | Inr text \<Rightarrow>
                     \<exists>step_id. text =
                       ''Successfully added step '' @ [CHR 0x27] @ name @ [CHR 0x27]
                       @ '' to phase '' @ phase_id @ ''.'' @ [CHR 0x0A]
                       @ ''Step ID: '' @ step_id @ [CHR 0x0A]
                       @ ''Enabled thematic blocks: INSTRUCTION'')"
      by (auto simp: tool_add_step_unfold k split: prod.splits sum.splits dest: py_get_error)
    from s v g1 g2 g3 t show ?thesis by blast
  qed
  from indep early rest show ?thesis by blast
qed

theorem tool_add_step_always_instruction_witness:
  "convert_ordering_number
      (example_runtime (\<lambda>h q. reply 201 ''{\"identifier\": \"s9\"}''
         (Inr (JObject [(''identifier'', JString ''s9'')]))))
      (Some (AnInt 1)) = Inr (Some 1)
   \<and> within_str_digits
        (example_runtime (\<lambda>h q. reply 201 ''{\"identifier\": \"s9\"}''
           (Inr (JObject [(''identifier'', JString ''s9'')])))) (Some 1)
   \<and> no_token_and_not_authenticate
        (example_runtime (\<lambda>h q. reply 201 ''{\"identifier\": \"s9\"}''
           (Inr (JObject [(''identifier'', JString ''s9'')]))))
        \<lparr>api = example_api\<lparr>access_token := JString ''tok1''\<rparr>, sent = []\<rparr>
       = (False, \<lparr>api = example_api\<lparr>access_token := JString ''tok1''\<rparr>, sent = []\<rparr>)
   \<and> (\<exists>r. fst (SiteflowAPI_add_step_to_phase
        (example_runtime (\<lambda>h q. reply 201 ''{\"identifier\": \"s9\"}''
           (Inr (JObject [(''identifier'', JString ''s9'')]))))
        \<lparr>api = example_api\<lparr>access_token := JString ''tok1''\<rparr>, sent = []\<rparr>
        ''ph1'' ''S'' None (Some 1) (Some [''INSTRUCTION''])) = Inr r \<and> success r)
   \<and> fst (add_step_to_phase
        (example_runtime (\<lambda>h q. reply 201 ''{\"identifier\": \"s9\"}''
           (Inr (JObject [(''identifier'', JString ''s9'')]))))
        \<lparr>api = example_api\<lparr>access_token := JString ''tok1''\<rparr>, sent = []\<rparr>
        ''ph1'' ''S'' None (Some (AnInt 1)) (Some ''checklist,form''))
       = Inr (''Successfully added step '' @ [CHR 0x27] @ ''S'' @ [CHR 0x27]
              @ '' to phase ph1.'' @ [CHR 0x0A] @ ''Step ID: s9'' @ [CHR 0x0A]
              @ ''Enabled thematic blocks: INSTRUCTION'')
   \<and> map (\<lambda>q. req_json q) (sent (snd (add_step_to_phase
        (example_runtime (\<lambda>h q. reply 201 ''{\"identifier\": \"s9\"}''
           (Inr (JObject [(''identifier'', JString ''s9'')]))))
        \<lparr>api = example_api\<lparr>access_token := JString ''tok1''\<rparr>, sent = []\<rparr>
        ''ph1'' ''S'' None (Some (AnInt 1)) (Some ''checklist,form''))))
       = [Some (JObject [(''data'', JArray [JObject
            [(''name'', JString ''S''),
             (''managementProperties'',
              JObject [(''listEnabledThematicBlocks'', JArray [JString ''INSTRUCTION''])]),
             (''customOrderingNumber'', JString ''1'')]])])]"
proof -
  let ?rt = "example_runtime (\<lambda>h q. reply 201 ''{\"identifier\": \"s9\"}''
               (Inr (JObject [(''identifier'', JString ''s9'')])))"
  let ?w = "\<lparr>api = example_api\<lparr>access_token := JString ''tok1''\<rparr>, sent = []\<rparr>"
  let ?op = "SiteflowAPI_add_step_to_phase ?rt ?w ''ph1'' ''S'' None (Some 1)
               (Some [''INSTRUCTION''])"
  let ?tool = "add_step_to_phase ?rt ?w ''ph1'' ''S'' None (Some (AnInt 1))
                 (Some ''checklist,form'')"
  let ?d = "[(''name'', JString ''S''),
             (''managementProperties'',
              JObject [(''listEnabledThematicBlocks'', JArray [JString ''INSTRUCTION''])]),
             (''customOrderingNumber'', JString ''1'')]"
  have c: "convert_ordering_number ?rt (Some (AnInt 1)) = Inr (Some 1)" by simp
  have lim: "within_str_digits ?rt (Some 1)"
    by (simp add: within_str_digits_def str_nat.simps example_runtime_def)
  have g: "no_token_and_not_authenticate ?rt ?w = (False, ?w)"
    by (simp add: no_token_and_not_authenticate_def)
  have one: "str_int 1 = ''1''"
    by (simp add: str_int_def str_nat.simps)
  have sd: "step_data ?rt ''S'' None (Some 1) (Some [''INSTRUCTION'']) = Inr ?d"
    using str_of_int_within [OF lim] by (simp add: step_data_def one)
  have h: "http ?rt s q = Response \<lparr>status_code = 201,
             resp_text = ''{\"identifier\": \"s9\"}'', resp_headers = [],
             resp_json = Inr (JObject [(''identifier'', JString ''s9'')])\<rparr>" for s q
    by (simp add: example_runtime_def reply_def)
  have op: "?op = (Inr (succeeded (JObject [(''identifier'', JString ''s9'')])), snd ?op)"
    unfolding add_step_instruction g
    by (simp add: sd) (simp add: post_data_def dispatch_def h)
  then have succ: "\<exists>r. fst ?op = Inr r \<and> success r"
    by (metis fst_conv succeeded_def result.select_convs(1))
  note t = tool_add_step_always_instruction
             [of ?rt ?w "''ph1''" "''S''" None "Some (AnInt 1)" "Some ''checklist,form''",
              THEN conjunct2, THEN conjunct2, rule_format, OF c]
  from t have same: "snd ?tool = snd ?op" by blast
  from t lim obtain d where
    d: "step_data ?rt ''S'' None (Some 1) (Some [''INSTRUCTION'']) = Inr d"
    and s: "\<forall>w1. no_token_and_not_authenticate ?rt ?w = (False, w1) \<longrightarrow>
              sent (snd ?op) = sent w1
                @ [\<lparr>req_method = POST,
                    req_url = server_url (api w1) @ ''/ext/api/2.0/phases/'' @ ''ph1''
                                @ ''/add-steps'',
                    req_headers = get_headers ?rt (api w1), req_params = [],
                    req_json = Some (JObject [(''data'', JArray [JObject d])])\<rparr>]"
    by blast
  from d sd have "d = ?d" by simp
  with s g same have body: "map (\<lambda>q. req_json q) (sent (snd ?tool))
       = [Some (JObject [(''data'', JArray [JObject ?d])])]"
    by simp
  have shown: "fst ?tool
       = Inr (''Successfully added step '' @ [CHR 0x27] @ ''S'' @ [CHR 0x27]
              @ '' to phase ph1.'' @ [CHR 0x0A] @ ''Step ID: s9'' @ [CHR 0x0A]
              @ ''Enabled thematic blocks: INSTRUCTION'')"
    by (subst tool_add_step_unfold, subst c, simp, subst op, simp add: succeeded_def)
  from c lim g succ shown body show ?thesis by blast
qed

section \<open>The tool that creates a flow\<close>

lemma flow_properties_type:
  "map_of (flow_properties name flow_type description cat fam code ref) ''type''
     = Some (JString flow_type)"
  by (simp add: flow_properties_def Let_def map_of_dict_set)

lemma tool_create_flow_world:
  "flow_type = [] \<or> flow_type \<in> set [''CORE'', ''HEAD'', ''GENERIC'', ''FORM''] \<Longrightarrow>
   snd (create_flow rt w name p (Some flow_type) description cat fam code ref)
     = snd (SiteflowAPI_create_flow rt w name p (Some flow_type) description cat fam code ref)"
  by (auto simp: create_flow_def Let_def split: prod.splits)

lemma api_create_flow_sent:
  "no_token_and_not_authenticate rt w = (False, w1) \<Longrightarrow>
   sent (snd (SiteflowAPI_create_flow rt w name p (Some flow_type) description cat fam code
                ref))
     = sent w1
       @ [\<lparr>req_method = POST,
           req_url = server_url (api w1) @ ''/ext/api/2.0/flows/bulk-create'',
           req_headers = get_headers rt (api w1), req_params = [],
           req_json = Some (JObject [(''data'', JArray [JObject
             [(''flowProperties'', JObject
                 (flow_properties name flow_type description cat
                    (if fam = None \<and> given (family_id (api w1)) then family_id (api w1)
                     else fam)
                    code ref)),
              (''projectIdentifier'', JString p)]])])\<rparr>]"
  by (simp add: SiteflowAPI_create_flow_def Let_def post_data_sent)

text \<open>
  C10 as stated fails for the empty string: the test of the tool is
  \<^verbatim>\<open>flow_type and flow_type not in [...]\<close>, so an empty \<^verbatim>\<open>flow_type\<close>, which is outside
  the four types, is not rejected and the bulk-create request is sent.
\<close>

theorem create_flow_empty_type_counterexample:
  "[] \<notin> set [''CORE'', ''HEAD'', ''GENERIC'', ''FORM'']
   \<and> map req_url (sent (snd (create_flow
          (example_runtime (\<lambda>h q. Raised ''Connection refused''))
          \<lparr>api = example_api\<lparr>access_token := JString ''tok1''\<rparr>, sent = []\<rparr>
          ''F'' ''p1'' (Some []) None None None None None)))
       = [''https://poc-ai.siteflow.co/ext/api/2.0/flows/bulk-create'']"
proof -
  let ?rt = "example_runtime (\<lambda>h q. Raised ''Connection refused'')"
  let ?w = "\<lparr>api = example_api\<lparr>access_token := JString ''tok1''\<rparr>, sent = []\<rparr>"
  have g: "no_token_and_not_authenticate ?rt ?w = (False, ?w)"
    by (simp add: no_token_and_not_authenticate_def)
  have "snd (create_flow ?rt ?w ''F'' ''p1'' (Some []) None None None None None)
          = snd (SiteflowAPI_create_flow ?rt ?w ''F'' ''p1'' (Some []) None None None None None)"
    by (rule tool_create_flow_world) simp
  then have "map req_url (sent (snd (create_flow ?rt ?w ''F'' ''p1'' (Some []) None None None
                                       None None)))
               = [server_url (api ?w) @ ''/ext/api/2.0/flows/bulk-create'']"
    by (simp only: api_create_flow_sent [OF g]) simp
  then show ?thesis
    by (simp add: example_api_def)
qed

text \<open>
  C10, amended. The validation is in the tool \<^verbatim>\<open>create_flow\<close> and nowhere else. For a
  non-empty \<^verbatim>\<open>flow_type\<close> outside CORE, HEAD, GENERIC and FORM the tool returns the error
  text and leaves the state as it was: nothing is sent, not even the authenticate request.
  For an empty or a valid \<^verbatim>\<open>flow_type\<close> the tool makes the API call with it. The API
  method \<^verbatim>\<open>SiteflowAPI.create_flow\<close> validates nothing: past its authentication guard it
  sends the bulk-create request with whatever \<^verbatim>\<open>flow_type\<close> it is given. A \<^verbatim>\<open>flow_type\<close>
  that is left out is GENERIC, for the tool and for the API method, and the request then
  sent has \<^verbatim>\<open>"type": "GENERIC"\<close> in its flow properties.
\<close>

theorem create_flow_type_validated:
  "(flow_type \<noteq> [] \<and> flow_type \<notin> {''CORE'', ''HEAD'', ''GENERIC'', ''FORM''} \<longrightarrow>
      create_flow rt w name p (Some flow_type) description cat fam code ref
        = (''Error: flow_type must be one of CORE, HEAD, GENERIC, FORM, got ''
           @ [CHR 0x27] @ flow_type @ [CHR 0x27], w))
   \<and> (flow_type = [] \<or> flow_type \<in> {''CORE'', ''HEAD'', ''GENERIC'', ''FORM''} \<longrightarrow>
        snd (create_flow rt w name p (Some flow_type) description cat fam code ref)
          = snd (SiteflowAPI_create_flow rt w name p (Some flow_type) description cat fam
                   code ref))
   \<and> (\<forall>w1. no_token_and_not_authenticate rt w = (False, w1) \<longrightarrow>
         sent (snd (SiteflowAPI_create_flow rt w name p (Some flow_type) description cat fam
                      code ref))
           = sent w1
             @ [\<lparr>req_method = POST,
                 req_url = server_url (api w1) @ ''/ext/api/2.0/flows/bulk-create'',
                 req_headers = get_headers rt (api w1), req_params = [],
                 req_json = Some (JObject [(''data'', JArray [JObject
                   [(''flowProperties'', JObject
                       (flow_properties name flow_type description cat
                          (if fam = None \<and> given (family_id (api w1)) then family_id (api w1)
                           else fam)
                          code ref)),
                    (''projectIdentifier'', JString p)]])])\<rparr>])
   \<and> map_of (flow_properties name flow_type description cat fam code ref) ''type''
       = Some (JString flow_type)
   \<and> create_flow rt w name p None description cat fam code ref
       = create_flow rt w name p (Some ''GENERIC'') description cat fam code ref
   \<and> SiteflowAPI_create_flow rt w name p None description cat fam code ref
       = SiteflowAPI_create_flow rt w name p (Some ''GENERIC'') description cat fam code ref
   \<and> (\<forall>w1. no_token_and_not_authenticate rt w = (False, w1) \<longrightarrow>
         sent (snd (create_flow rt w name p None description cat fam code ref))
           = sent w1
             @ [\<lparr>req_method = POST,
                 req_url = server_url (api w1) @ ''/ext/api/2.0/flows/bulk-create'',
                 req_headers = get_headers rt (api w1), req_params = [],
                 req_json = Some (JObject [(''data'', JArray [JObject
                   [(''flowProperties'', JObject
                       (flow_properties name ''GENERIC'' description cat
                          (if fam = None \<and> given (family_id (api w1)) then family_id (api w1)
                           else fam)
                          code ref)),
                    (''projectIdentifier'', JString p)]])])\<rparr>])
   \<and> map_of (flow_properties name ''GENERIC'' description cat fam code ref) ''type''
       = Some (JString ''GENERIC'')"
proof -
  have rejected: "flow_type \<noteq> [] \<and> flow_type \<notin> {''CORE'', ''HEAD'', ''GENERIC'', ''FORM''} \<longrightarrow>
      create_flow rt w name p (Some flow_type) description cat fam code ref
        = (''Error: flow_type must be one of CORE, HEAD, GENERIC, FORM, got ''
           @ [CHR 0x27] @ flow_type @ [CHR 0x27], w)"
    by (simp add: create_flow_def)
  have passed: "flow_type = [] \<or> flow_type \<in> {''CORE'', ''HEAD'', ''GENERIC'', ''FORM''} \<longrightarrow>
        snd (create_flow rt w name p (Some flow_type) description cat fam code ref)
          = snd (SiteflowAPI_create_flow rt w name p (Some flow_type) description cat fam
                   code ref)"
    using tool_create_flow_world [of flow_type rt w name p description cat fam code ref]
    by auto
  have api: "\<forall>w1. no_token_and_not_authenticate rt w = (False, w1) \<longrightarrow>
         sent (snd (SiteflowAPI_create_flow rt w name p (Some flow_type) description cat fam
                      code ref))
           = sent w1
             @ [\<lparr>req_method = POST,
                 req_url = server_url (api w1) @ ''/ext/api/2.0/flows/bulk-create'',
                 req_headers = get_headers rt (api w1), req_params = [],
                 req_json = Some (JObject [(''data'', JArray [JObject
                   [(''flowProperties'', JObject
                       (flow_properties name flow_type description cat
                          (if fam = None \<and> given (family_id (api w1)) then family_id (api w1)
                           else fam)
                          code ref)),
                    (''projectIdentifier'', JString p)]])])\<rparr>]"
    by (simp add: api_create_flow_sent)
  have tool_default: "create_flow rt w name p None description cat fam code ref
       = create_flow rt w name p (Some ''GENERIC'') description cat fam code ref"
    by (simp add: create_flow_def)
  have api_default: "SiteflowAPI_create_flow rt w name p None description cat fam code ref
       = SiteflowAPI_create_flow rt w name p (Some ''GENERIC'') description cat fam code ref"
    by (simp add: SiteflowAPI_create_flow_def)
  have "snd (create_flow rt w name p (Some ''GENERIC'') description cat fam code ref)
          = snd (SiteflowAPI_create_flow rt w name p (Some ''GENERIC'') description cat fam
                   code ref)"
    by (rule tool_create_flow_world) simp
  with tool_default have request: "\<forall>w1. no_token_and_not_authenticate rt w = (False, w1) \<longrightarrow>
         sent (snd (create_flow rt w name p None description cat fam code ref))
           = sent w1
             @ [\<lparr>req_method = POST,
                 req_url = server_url (api w1) @ ''/ext/api/2.0/flows/bulk-create'',
                 req_headers = get_headers rt (api w1), req_params = [],
                 req_json = Some (JObject [(''data'', JArray [JObject
                   [(''flowProperties'', JObject
                       (flow_properties name ''GENERIC'' description cat
                          (if fam = None \<and> given (family_id (api w1)) then family_id (api w1)
                           else fam)
                          code ref)),
                    (''projectIdentifier'', JString p)]])])\<rparr>]"
    by (simp add: api_create_flow_sent)
  from rejected passed api tool_default api_default request
    flow_properties_type [of name flow_type description cat fam code ref]
    flow_properties_type [of name "''GENERIC''" description cat fam code ref]
  show ?thesis
    by blast
qed

theorem create_flow_type_validated_witness:
  "''BOGUS'' \<noteq> [] \<and> ''BOGUS'' \<notin> {''CORE'', ''HEAD'', ''GENERIC'', ''FORM''}
   \<and> create_flow (example_runtime (\<lambda>h q. Raised ''Connection refused''))
        \<lparr>api = example_api, sent = []\<rparr> ''F'' ''p1'' (Some ''BOGUS'') None None None None None
       = (''Error: flow_type must be one of CORE, HEAD, GENERIC, FORM, got ''
          @ [CHR 0x27] @ ''BOGUS'' @ [CHR 0x27],
          \<lparr>api = example_api, sent = []\<rparr>)
   \<and> no_token_and_not_authenticate (example_runtime (\<lambda>h q. Raised ''Connection refused''))
        \<lparr>api = example_api\<lparr>access_token := JString ''tok1''\<rparr>, sent = []\<rparr>
       = (False, \<lparr>api = example_api\<lparr>access_token := JString ''tok1''\<rparr>, sent = []\<rparr>)
   \<and> map req_url (sent (snd (SiteflowAPI_create_flow
          (example_runtime (\<lambda>h q. Raised ''Connection refused''))
          \<lparr>api = example_api\<lparr>access_token := JString ''tok1''\<rparr>, sent = []\<rparr>
          ''F'' ''p1'' (Some ''BOGUS'') None None None None None)))
       = [''https://poc-ai.siteflow.co/ext/api/2.0/flows/bulk-create'']"
proof -
  let ?rt = "example_runtime (\<lambda>h q. Raised ''Connection refused'')"
  let ?w = "\<lparr>api = example_api\<lparr>access_token := JString ''tok1''\<rparr>, sent = []\<rparr>"
  have a: "''BOGUS'' \<noteq> [] \<and> ''BOGUS'' \<notin> {''CORE'', ''HEAD'', ''GENERIC'', ''FORM''}"
    by simp
  have g: "no_token_and_not_authenticate ?rt ?w = (False, ?w)"
    by (simp add: no_token_and_not_authenticate_def)
  from create_flow_type_validated
         [of "''BOGUS''" ?rt "\<lparr>api = example_api, sent = []\<rparr>" "''F''" "''p1''"
             None None None None None,
          THEN conjunct1, rule_format, OF a]
  have tool: "create_flow ?rt \<lparr>api = example_api, sent = []\<rparr> ''F'' ''p1'' (Some ''BOGUS'')
                None None None None None
       = (''Error: flow_type must be one of CORE, HEAD, GENERIC, FORM, got ''
          @ [CHR 0x27] @ ''BOGUS'' @ [CHR 0x27],
          \<lparr>api = example_api, sent = []\<rparr>)" .
  from create_flow_type_validated
         [of "''BOGUS''" ?rt ?w "''F''" "''p1''" None None None None None,
          THEN conjunct2, THEN conjunct2, THEN conjunct1, rule_format, OF g]
  have "map req_url (sent (snd (SiteflowAPI_create_flow ?rt ?w ''F'' ''p1'' (Some ''BOGUS'')
                                  None None None None None)))
          = [server_url (api ?w) @ ''/ext/api/2.0/flows/bulk-create'']"
    by simp
  then have "map req_url (sent (snd (SiteflowAPI_create_flow ?rt ?w ''F'' ''p1''
                                       (Some ''BOGUS'') None None None None None)))
          = [''https://poc-ai.siteflow.co/ext/api/2.0/flows/bulk-create'']"
    by (simp add: example_api_def)
  with a tool g show ?thesis by blast
qed

end
